theory Spec2Isabelle
  imports Complex_Main
begin

section \<open>Python primitives used by \<open>pysdd/io.py\<close>\<close>

text \<open>
  Text is modelled as a list of characters with code points below 256 (for ASCII input this
  is exactly Python's \<open>str\<close>).  Exceptions are values of the type \<open>error\<close>; a function that
  can raise returns \<open>error + 'a\<close> with \<open>Inl\<close> for the exception.
\<close>

datatype error =
    Exception string  \<comment> \<open>\<open>raise Exception(msg)\<close>\<close>
  | IndexError
  | ValueError string  \<comment> \<open>the message; for \<open>int()\<close> the text that was rejected\<close>
  | TypeError

definition bind_err :: "error + 'a \<Rightarrow> ('a \<Rightarrow> error + 'b) \<Rightarrow> error + 'b" where
  "bind_err m f = (case m of Inl e \<Rightarrow> Inl e | Inr x \<Rightarrow> f x)"

text \<open>\<open>xs[i]\<close> and \<open>xs[i] = v\<close> on a Python list: a negative index counts from the end,
  an index outside \<open>-len(xs) .. len(xs) - 1\<close> raises IndexError.\<close>

definition py_index :: "nat \<Rightarrow> int \<Rightarrow> nat option" where
  "py_index n i =
     (if 0 \<le> i \<and> i < int n then Some (nat i)
      else if i < 0 \<and> - int n \<le> i then Some (nat (int n + i))
      else None)"

definition py_get :: "'a list \<Rightarrow> int \<Rightarrow> error + 'a" where
  "py_get xs i = (case py_index (length xs) i of None \<Rightarrow> Inl IndexError | Some j \<Rightarrow> Inr (xs ! j))"

definition py_set :: "'a list \<Rightarrow> int \<Rightarrow> 'a \<Rightarrow> error + 'a list" where
  "py_set xs i v = (case py_index (length xs) i of None \<Rightarrow> Inl IndexError | Some j \<Rightarrow> Inr (xs[j := v]))"

text \<open>\<open>str.isspace\<close> on code points below 256: the characters removed by \<open>str.strip()\<close>.\<close>

definition py_isspace :: "char \<Rightarrow> bool" where
  "py_isspace c \<longleftrightarrow>
     c = CHR '' '' \<or> c = CHR 0x09 \<or> c = CHR 0x0A \<or> c = CHR 0x0B \<or> c = CHR 0x0C \<or> c = CHR 0x0D
     \<or> c = CHR 0x1C \<or> c = CHR 0x1D \<or> c = CHR 0x1E \<or> c = CHR 0x1F \<or> c = CHR 0x85 \<or> c = CHR 0xA0"

definition py_strip :: "string \<Rightarrow> string" where
  "py_strip s = rev (dropWhile py_isspace (rev (dropWhile py_isspace s)))"

text \<open>\<open>s.split(' ')\<close>: split at every single space; empty fields are kept, and the result
  always has at least one field.\<close>

fun py_split :: "string \<Rightarrow> string list" where
  "py_split [] = [[]]"
| "py_split (c # cs) =
     (if c = CHR '' '' then [] # py_split cs
      else (case py_split cs of [] \<Rightarrow> [[c]] | w # ws \<Rightarrow> (c # w) # ws))"

text \<open>\<open>int(s)\<close> in base 10: surrounding whitespace is ignored, one sign is allowed, then
  decimal digits, where single underscores may separate digits.  Anything else raises
  ValueError.  The whitespace \<open>int()\<close> ignores is smaller than that of \<open>str.strip\<close>: of the
  characters below 127 only the space and the characters 9 to 13 (so the separators 28 to
  31 are not ignored), and above that the whitespace of \<open>str.isspace\<close>.  (The interpreter's
  limit on the number of digits is not modelled.)\<close>

definition int_isspace :: "char \<Rightarrow> bool" where
  "int_isspace c \<longleftrightarrow>
     c = CHR '' '' \<or> c = CHR 0x09 \<or> c = CHR 0x0A \<or> c = CHR 0x0B \<or> c = CHR 0x0C \<or> c = CHR 0x0D
     \<or> c = CHR 0x85 \<or> c = CHR 0xA0"

definition int_strip :: "string \<Rightarrow> string" where
  "int_strip s = rev (dropWhile int_isspace (rev (dropWhile int_isspace s)))"

definition digit_val :: "char \<Rightarrow> nat option" where
  "digit_val c =
     (let code = (of_char c :: nat)
      in if of_char CHR ''0'' \<le> code \<and> code \<le> of_char CHR ''9''
         then Some (code - of_char CHR ''0'') else None)"

fun parse_digits :: "nat \<Rightarrow> string \<Rightarrow> nat option" where
  "parse_digits acc [] = Some acc"
| "parse_digits acc [c] =
     (case digit_val c of None \<Rightarrow> None | Some v \<Rightarrow> Some (acc * 10 + v))"
| "parse_digits acc (c # d # ds) =
     (if c = CHR ''_'' then
        (case digit_val d of None \<Rightarrow> None | Some v \<Rightarrow> parse_digits (acc * 10 + v) ds)
      else
        (case digit_val c of None \<Rightarrow> None | Some v \<Rightarrow> parse_digits (acc * 10 + v) (d # ds)))"

definition py_int :: "string \<Rightarrow> error + int" where
  "py_int s =
     (let t = int_strip s;
          neg = (case t of [] \<Rightarrow> False | c # _ \<Rightarrow> c = CHR ''-'');
          body = (case t of [] \<Rightarrow> [] | c # r \<Rightarrow> if c = CHR ''-'' \<or> c = CHR ''+'' then r else t)
      in case body of
           [] \<Rightarrow> Inl (ValueError s)
         | d # ds \<Rightarrow>
             (case digit_val d of
                None \<Rightarrow> Inl (ValueError s)
              | Some v \<Rightarrow>
                  (case parse_digits v ds of
                     None \<Rightarrow> Inl (ValueError s)
                   | Some n \<Rightarrow> Inr (if neg then - int n else int n))))"

text \<open>\<open>f.readlines()\<close> on a file opened in text mode: the content is cut after every line
  end; the line ends \<open>\n\<close>, \<open>\r\n\<close> and \<open>\r\<close> are all delivered as \<open>\n\<close>.\<close>

fun readlines_from :: "string \<Rightarrow> string \<Rightarrow> string list" where
  "readlines_from acc [] = (if acc = [] then [] else [rev acc])"
| "readlines_from acc [c] =
     (if c = CHR 0x0A \<or> c = CHR 0x0D then [rev (CHR 0x0A # acc)] else [rev (c # acc)])"
| "readlines_from acc (c # d # cs) =
     (if c = CHR 0x0A then rev (CHR 0x0A # acc) # readlines_from [] (d # cs)
      else if c = CHR 0x0D then
        rev (CHR 0x0A # acc) # readlines_from [] (if d = CHR 0x0A then cs else d # cs)
      else readlines_from (c # acc) (d # cs))"

definition readlines :: "string \<Rightarrow> string list" where
  "readlines content = readlines_from [] content"

section \<open>Python floats\<close>

text \<open>
  A Python float is an IEEE 754 binary64 number.  It is modelled by its value: a real
  number (always one that binary64 represents), plus or minus infinity, or not-a-number.
  The two zeros are not distinguished (they compare equal in Python).  Addition and
  multiplication compute the exact result and round it to the nearest binary64 number,
  ties to the even significand; they never raise.
\<close>

datatype pyfloat = Finite real | PosInf | NegInf | NaN

text \<open>The exponent \<open>e\<close> of a positive number \<open>x\<close>, \<open>2 ^ e \<le> x < 2 ^ (e + 1)\<close>, kept within
  \<open>- 1022 .. 1024\<close>: below \<open>- 1022\<close> the numbers are subnormal and share the spacing of
  exponent \<open>- 1022\<close>, and exponent 1024 is beyond the largest float.\<close>

function exp_up :: "real \<Rightarrow> int \<Rightarrow> int" where
  "exp_up x e = (if 2 \<le> x \<and> e < 1024 then exp_up (x / 2) (e + 1) else e)"
  by pat_completeness auto
termination
  by (relation "measure (\<lambda>(x, e). nat (1024 - e))") auto

function exp_down :: "real \<Rightarrow> int \<Rightarrow> int" where
  "exp_down x e = (if x < 1 \<and> - 1022 < e then exp_down (2 * x) (e - 1) else e)"
  by pat_completeness auto
termination
  by (relation "measure (\<lambda>(x, e). nat (e + 1022))") auto

definition binade :: "real \<Rightarrow> int" where
  "binade x = (if 1 \<le> x then exp_up x 0 else exp_down x 0)"

definition pow2 :: "int \<Rightarrow> real" where
  "pow2 e = (if 0 \<le> e then 2 ^ nat e else 1 / 2 ^ nat (- e))"

text \<open>Rounding to the nearest integer, a tie to the even one.\<close>

definition round_even :: "real \<Rightarrow> int" where
  "round_even q =
     (let n = \<lfloor>q\<rfloor>; r = q - of_int n
      in if r < 1 / 2 then n else if 1 / 2 < r then n + 1 else if even n then n else n + 1)"

text \<open>The float nearest to a real number: the significand has 53 bits, so the spacing of
  the floats with exponent \<open>e\<close> is \<open>2 ^ (e - 52)\<close>; a result of magnitude \<open>2 ^ 1024\<close> or more
  is infinite.  A float literal of the source such as \<open>0.3\<close> denotes \<open>fl (3 / 10)\<close>.\<close>

definition fl :: "real \<Rightarrow> pyfloat" where
  "fl x =
     (if x = 0 then Finite 0
      else
        (let a = \<bar>x\<bar>; e = binade a
         in if 1024 \<le> e then (if 0 < x then PosInf else NegInf)
            else
              (let u = pow2 (e - 52); n = round_even (a / u)
               in if e = 1023 \<and> n = 2 ^ 53 then (if 0 < x then PosInf else NegInf)
                  else Finite ((if 0 < x then 1 else - 1) * of_int n * u))))"

fun fadd :: "pyfloat \<Rightarrow> pyfloat \<Rightarrow> pyfloat" where
  "fadd NaN y = NaN"
| "fadd x NaN = NaN"
| "fadd (Finite a) (Finite b) = fl (a + b)"
| "fadd PosInf NegInf = NaN"
| "fadd NegInf PosInf = NaN"
| "fadd PosInf y = PosInf"
| "fadd NegInf y = NegInf"
| "fadd (Finite a) y = y"

fun inf_times :: "bool \<Rightarrow> real \<Rightarrow> pyfloat" where
  "inf_times positive a =
     (if a = 0 then NaN else if (0 < a) = positive then PosInf else NegInf)"

fun fmul :: "pyfloat \<Rightarrow> pyfloat \<Rightarrow> pyfloat" where
  "fmul NaN y = NaN"
| "fmul x NaN = NaN"
| "fmul (Finite a) (Finite b) = fl (a * b)"
| "fmul (Finite a) PosInf = inf_times True a"
| "fmul (Finite a) NegInf = inf_times False a"
| "fmul PosInf (Finite b) = inf_times True b"
| "fmul NegInf (Finite b) = inf_times False b"
| "fmul PosInf PosInf = PosInf"
| "fmul NegInf NegInf = PosInf"
| "fmul PosInf NegInf = NegInf"
| "fmul NegInf PosInf = NegInf"

text \<open>Arithmetic on array entries: an entry is a float or Python's \<open>None\<close>; arithmetic
  with \<open>None\<close> raises TypeError.\<close>

definition py_mul :: "pyfloat option \<Rightarrow> pyfloat option \<Rightarrow> error + pyfloat option" where
  "py_mul a b = (case (a, b) of (Some x, Some y) \<Rightarrow> Inr (Some (fmul x y)) | _ \<Rightarrow> Inl TypeError)"

definition py_add :: "pyfloat option \<Rightarrow> pyfloat option \<Rightarrow> error + pyfloat option" where
  "py_add a b = (case (a, b) of (Some x, Some y) \<Rightarrow> Inr (Some (fadd x y)) | _ \<Rightarrow> Inl TypeError)"

text \<open>The weight table is a dictionary from literals to weights, or \<open>None\<close> when the caller
  leaves the argument out; \<open>lit in None\<close> raises TypeError.\<close>

type_synonym weight_table = "(int \<rightharpoonup> pyfloat) option"

definition lit_weight :: "weight_table \<Rightarrow> int \<Rightarrow> pyfloat \<Rightarrow> error + pyfloat option" where
  "lit_weight weights lit dflt =
     (case weights of
        None \<Rightarrow> Inl TypeError
      | Some tbl \<Rightarrow> (case tbl lit of Some w \<Rightarrow> Inr (Some w) | None \<Rightarrow> Inr (Some dflt)))"

section \<open>The NNF evaluator \<open>nnf_file_wmc\<close>\<close>

text \<open>The local variables \<open>wmc\<close>, \<open>ln\<close> and \<open>detected_nnf\<close> of \<open>nnf_file_wmc\<close>, which the
  loop over the lines changes.\<close>

record nnf_state =
  wmc_nnf :: "pyfloat option list"
  ln_nnf :: nat
  detected_nnf :: bool

definition true_weight :: pyfloat where "true_weight = Finite 1"
definition false_weight :: pyfloat where "false_weight = Finite 0"

definition nnf_missing_header :: string where
  "nnf_missing_header = ''An NNF file should start with '' @ [CHR 0x27] @ ''nnf'' @ [CHR 0x27]"

text \<open>The loop \<open>for i in range(int(cols[1])): wmc[ln] *= wmc[int(cols[2 + i])]\<close>; the
  list argument holds the values of \<open>i\<close> still to come.\<close>

fun nnf_and_loop :: "string list \<Rightarrow> nat \<Rightarrow> pyfloat option list \<Rightarrow> nat list \<Rightarrow> error + pyfloat option list" where
  "nnf_and_loop cols l w [] = Inr w"
| "nnf_and_loop cols l w (i # is) =
     bind_err (py_get w (int l)) (\<lambda>a.
     bind_err (py_get cols (2 + int i)) (\<lambda>tok.
     bind_err (py_int tok) (\<lambda>c.
     bind_err (py_get w c) (\<lambda>b.
     bind_err (py_mul a b) (\<lambda>v.
     bind_err (py_set w (int l) v) (\<lambda>w'.
     nnf_and_loop cols l w' is))))))"

text \<open>The loop \<open>for i in range(int(cols[2])): wmc[ln] += wmc[int(cols[3 + i])]\<close>.\<close>

fun nnf_or_loop :: "string list \<Rightarrow> nat \<Rightarrow> pyfloat option list \<Rightarrow> nat list \<Rightarrow> error + pyfloat option list" where
  "nnf_or_loop cols l w [] = Inr w"
| "nnf_or_loop cols l w (i # is) =
     bind_err (py_get w (int l)) (\<lambda>a.
     bind_err (py_get cols (3 + int i)) (\<lambda>tok.
     bind_err (py_int tok) (\<lambda>c.
     bind_err (py_get w c) (\<lambda>b.
     bind_err (py_add a b) (\<lambda>v.
     bind_err (py_set w (int l) v) (\<lambda>w'.
     nnf_or_loop cols l w' is))))))"

text \<open>\<open>range(n)\<close> for a Python integer: empty when \<open>n\<close> is not positive.\<close>

definition py_range :: "int \<Rightarrow> nat list" where
  "py_range n = [0..<nat n]"

definition nnf_L :: "weight_table \<Rightarrow> string list \<Rightarrow> nnf_state \<Rightarrow> error + nnf_state" where
  "nnf_L weights cols st =
     bind_err (py_get cols 1) (\<lambda>tok.
     bind_err (py_int tok) (\<lambda>lit.
     bind_err (lit_weight weights lit true_weight) (\<lambda>v.
     bind_err (py_set (wmc_nnf st) (int (ln_nnf st)) v) (\<lambda>w'.
     Inr (st\<lparr>wmc_nnf := w'\<rparr>)))))"

definition nnf_A :: "string list \<Rightarrow> nnf_state \<Rightarrow> error + nnf_state" where
  "nnf_A cols st =
     bind_err (py_set (wmc_nnf st) (int (ln_nnf st)) (Some (Finite 1))) (\<lambda>w0.
     bind_err (py_get cols 1) (\<lambda>tok.
     bind_err (py_int tok) (\<lambda>k.
     bind_err (nnf_and_loop cols (ln_nnf st) w0 (py_range k)) (\<lambda>w'.
     Inr (st\<lparr>wmc_nnf := w'\<rparr>)))))"

definition nnf_O :: "string list \<Rightarrow> nnf_state \<Rightarrow> error + nnf_state" where
  "nnf_O cols st =
     bind_err (py_set (wmc_nnf st) (int (ln_nnf st)) (Some false_weight)) (\<lambda>w0.
     bind_err (py_get cols 2) (\<lambda>tok.
     bind_err (py_int tok) (\<lambda>k.
     bind_err (nnf_or_loop cols (ln_nnf st) w0 (py_range k)) (\<lambda>w'.
     Inr (st\<lparr>wmc_nnf := w'\<rparr>)))))"

text \<open>One iteration of \<open>for line in nnf_file.readlines()\<close>.  The three tests on
  \<open>cols[0]\<close> for \<open>L\<close>, \<open>A\<close> and \<open>O\<close> are separate \<open>if\<close> statements in the source; a line
  that matches none of them only advances \<open>ln\<close>.\<close>

definition nnf_line :: "weight_table \<Rightarrow> string \<Rightarrow> nnf_state \<Rightarrow> error + nnf_state" where
  "nnf_line weights line st =
     (let cols = py_split (py_strip line) in
      bind_err (py_get cols 0) (\<lambda>c0.
        if c0 = ''c'' then Inr st
        else if c0 = ''nnf'' then
          bind_err (py_get cols 1) (\<lambda>tok.
          bind_err (py_int tok) (\<lambda>n.
          Inr (st\<lparr>wmc_nnf := replicate (nat n) None, detected_nnf := True\<rparr>)))
        else if \<not> detected_nnf st then Inl (Exception nnf_missing_header)
        else
          bind_err (if c0 = ''L'' then nnf_L weights cols st else Inr st) (\<lambda>st1.
          bind_err (if c0 = ''A'' then nnf_A cols st1 else Inr st1) (\<lambda>st2.
          bind_err (if c0 = ''O'' then nnf_O cols st2 else Inr st2) (\<lambda>st3.
          Inr (st3\<lparr>ln_nnf := ln_nnf st3 + 1\<rparr>))))))"

fun nnf_lines :: "weight_table \<Rightarrow> string list \<Rightarrow> nnf_state \<Rightarrow> error + nnf_state" where
  "nnf_lines weights [] st = Inr st"
| "nnf_lines weights (line # rest) st =
     bind_err (nnf_line weights line st) (\<lambda>st'. nnf_lines weights rest st')"

definition nnf_init :: nnf_state where
  "nnf_init = \<lparr>wmc_nnf = [], ln_nnf = 0, detected_nnf = False\<rparr>"

text \<open>\<open>nnf_file_wmc\<close>, applied to the content of the file instead of its name (opening
  the file is outside the model).  The result is \<open>wmc[-1]\<close>, which can be \<open>None\<close>.\<close>

definition nnf_file_wmc :: "string \<Rightarrow> weight_table \<Rightarrow> error + pyfloat option" where
  "nnf_file_wmc content weights =
     bind_err (nnf_lines weights (readlines content) nnf_init) (\<lambda>st. py_get (wmc_nnf st) (- 1))"

section \<open>The SDD evaluator \<open>sdd_file_wmc\<close>\<close>

text \<open>The local variables \<open>wmc\<close>, \<open>ln\<close> and \<open>detected_sdd\<close> of \<open>sdd_file_wmc\<close>.\<close>

record sdd_state =
  wmc_sdd :: "pyfloat option list"
  ln_sdd :: nat
  detected_sdd :: bool

definition sdd_missing_header :: string where
  "sdd_missing_header = ''An SDD file should start with '' @ [CHR 0x27] @ ''sdd'' @ [CHR 0x27]"

text \<open>The list comprehension \<open>[int(col) for col in cols[4:]]\<close>.\<close>

fun ints_of :: "string list \<Rightarrow> error + int list" where
  "ints_of [] = Inr []"
| "ints_of (t # ts) =
     bind_err (py_int t) (\<lambda>n. bind_err (ints_of ts) (\<lambda>ns. Inr (n # ns)))"

text \<open>The loop \<open>for idx in range(nb_elmts): w += wmc[elmts[2 * idx]] * wmc[elmts[2 * idx + 1]]\<close>.\<close>

fun sdd_elements_loop :: "pyfloat option list \<Rightarrow> int list \<Rightarrow> pyfloat option \<Rightarrow> nat list \<Rightarrow> error + pyfloat option" where
  "sdd_elements_loop w elmts acc [] = Inr acc"
| "sdd_elements_loop w elmts acc (idx # idxs) =
     bind_err (py_get elmts (2 * int idx)) (\<lambda>p.
     bind_err (py_get w p) (\<lambda>wp.
     bind_err (py_get elmts (2 * int idx + 1)) (\<lambda>s.
     bind_err (py_get w s) (\<lambda>ws.
     bind_err (py_mul wp ws) (\<lambda>prod.
     bind_err (py_add acc prod) (\<lambda>acc'.
     sdd_elements_loop w elmts acc' idxs))))))"

definition sdd_L :: "weight_table \<Rightarrow> string list \<Rightarrow> sdd_state \<Rightarrow> error + sdd_state" where
  "sdd_L weights cols st =
     bind_err (py_get cols 1) (\<lambda>tok1.
     bind_err (py_int tok1) (\<lambda>nodeid.
     bind_err (py_get cols 3) (\<lambda>tok3.
     bind_err (py_int tok3) (\<lambda>lit.
     bind_err (lit_weight weights lit (Finite 1)) (\<lambda>v.
     bind_err (py_set (wmc_sdd st) nodeid v) (\<lambda>w'.
     Inr (st\<lparr>wmc_sdd := w'\<rparr>)))))))"

definition sdd_F :: "string list \<Rightarrow> sdd_state \<Rightarrow> error + sdd_state" where
  "sdd_F cols st =
     bind_err (py_get cols 1) (\<lambda>tok1.
     bind_err (py_int tok1) (\<lambda>nodeid.
     bind_err (py_set (wmc_sdd st) nodeid (Some false_weight)) (\<lambda>w'.
     Inr (st\<lparr>wmc_sdd := w'\<rparr>))))"

definition sdd_T :: "string list \<Rightarrow> sdd_state \<Rightarrow> error + sdd_state" where
  "sdd_T cols st =
     bind_err (py_get cols 1) (\<lambda>tok1.
     bind_err (py_int tok1) (\<lambda>nodeid.
     bind_err (py_set (wmc_sdd st) nodeid (Some true_weight)) (\<lambda>w'.
     Inr (st\<lparr>wmc_sdd := w'\<rparr>))))"

definition sdd_D :: "string list \<Rightarrow> sdd_state \<Rightarrow> error + sdd_state" where
  "sdd_D cols st =
     bind_err (py_get cols 1) (\<lambda>tok1.
     bind_err (py_int tok1) (\<lambda>nodeid.
     bind_err (py_get cols 3) (\<lambda>tok3.
     bind_err (py_int tok3) (\<lambda>nb_elmts.
     bind_err (ints_of (drop 4 cols)) (\<lambda>elmts.
     bind_err (sdd_elements_loop (wmc_sdd st) elmts (Some (Finite 0)) (py_range nb_elmts)) (\<lambda>w.
     bind_err (py_set (wmc_sdd st) nodeid w) (\<lambda>w'.
     Inr (st\<lparr>wmc_sdd := w'\<rparr>))))))))"

definition sdd_line :: "weight_table \<Rightarrow> string \<Rightarrow> sdd_state \<Rightarrow> error + sdd_state" where
  "sdd_line weights line st =
     (let cols = py_split (py_strip line) in
      bind_err (py_get cols 0) (\<lambda>c0.
        if c0 = ''c'' then Inr st
        else if c0 = ''sdd'' then
          bind_err (py_get cols 1) (\<lambda>tok.
          bind_err (py_int tok) (\<lambda>n.
          Inr (st\<lparr>wmc_sdd := replicate (nat n) None, detected_sdd := True\<rparr>)))
        else if \<not> detected_sdd st then Inl (Exception sdd_missing_header)
        else
          bind_err (if c0 = ''L'' then sdd_L weights cols st else Inr st) (\<lambda>st1.
          bind_err (if c0 = ''F'' then sdd_F cols st1 else Inr st1) (\<lambda>st2.
          bind_err (if c0 = ''T'' then sdd_T cols st2 else Inr st2) (\<lambda>st3.
          bind_err (if c0 = ''D'' then sdd_D cols st3 else Inr st3) (\<lambda>st4.
          Inr (st4\<lparr>ln_sdd := ln_sdd st4 + 1\<rparr>)))))))"

fun sdd_lines :: "weight_table \<Rightarrow> string list \<Rightarrow> sdd_state \<Rightarrow> error + sdd_state" where
  "sdd_lines weights [] st = Inr st"
| "sdd_lines weights (line # rest) st =
     bind_err (sdd_line weights line st) (\<lambda>st'. sdd_lines weights rest st')"

definition sdd_init :: sdd_state where
  "sdd_init = \<lparr>wmc_sdd = [], ln_sdd = 0, detected_sdd = False\<rparr>"

definition sdd_file_wmc :: "string \<Rightarrow> weight_table \<Rightarrow> error + pyfloat option" where
  "sdd_file_wmc content weights =
     bind_err (sdd_lines weights (readlines content) sdd_init) (\<lambda>st. py_get (wmc_sdd st) 0)"

section \<open>The renderer \<open>sdd_to_dot\<close>\<close>

text \<open>
  Modelled from the spec: the node class \<open>SddNode\<close> is not part of \<open>io.py\<close>.  The
  renderer reads a node through \<open>is_true\<close>, \<open>is_false\<close>, \<open>is_literal\<close>, \<open>is_decision\<close>,
  \<open>id\<close>, \<open>literal\<close>, \<open>vtree().position()\<close> and \<open>elements()\<close>; the specification describes it
  as a four-variant tagged union with a stable id, an optional vtree position and, for a
  decision node, an ordered sequence of (prime, sub) pairs.  A directed acyclic graph is
  given by its unfolding: a node with several parents occurs once under each parent, with
  the same id.  The test \<open>node in visited\<close> is decided by the node's id.
\<close>

datatype sddnode =
    SddTrue int "int option"
  | SddFalse int "int option"
  | SddLiteral int "int option" int
  | SddDecision int "int option" "(sddnode \<times> sddnode) list"

fun node_id :: "sddnode \<Rightarrow> int" where
  "node_id (SddTrue i vt) = i"
| "node_id (SddFalse i vt) = i"
| "node_id (SddLiteral i vt l) = i"
| "node_id (SddDecision i vt es) = i"

fun node_vtree :: "sddnode \<Rightarrow> int option" where
  "node_vtree (SddTrue i vt) = vt"
| "node_vtree (SddFalse i vt) = vt"
| "node_vtree (SddLiteral i vt l) = vt"
| "node_vtree (SddDecision i vt es) = vt"

text \<open>Keys of the label dictionary are literals (integers) or strings.\<close>

datatype label_key = KInt int | KStr string

type_synonym litnamemap = "label_key \<rightharpoonup> string"

text \<open>\<open>str(n)\<close> for an integer.\<close>

definition digit_char :: "nat \<Rightarrow> char" where
  "digit_char d = ''0123456789'' ! d"

fun str_nat :: "nat \<Rightarrow> string" where
  "str_nat n = (if n < 10 then [digit_char n] else str_nat (n div 10) @ [digit_char (n mod 10)])"

definition str_int :: "int \<Rightarrow> string" where
  "str_int i = (if i < 0 then CHR ''-'' # str_nat (nat (- i)) else str_nat (nat i))"

definition dq :: string where
  "dq = [CHR 0x22]"

text \<open>The default glyphs for true, false and multiplication, as UTF-8 bytes
  (U+27D9, U+27D8, U+00D7).\<close>

definition glyph_true :: string where
  "glyph_true = [CHR 0xE2, CHR 0x9F, CHR 0x99]"

definition glyph_false :: string where
  "glyph_false = [CHR 0xE2, CHR 0x9F, CHR 0x98]"

definition glyph_mult :: string where
  "glyph_mult = [CHR 0xC3, CHR 0x97]"

text \<open>\<open>litnamemap.get(key, default)\<close> followed by formatting with \<open>f"{name}"\<close>.\<close>

definition show_key :: "label_key \<Rightarrow> string" where
  "show_key k = (case k of KInt i \<Rightarrow> str_int i | KStr s \<Rightarrow> s)"

definition get_str :: "litnamemap \<Rightarrow> string \<Rightarrow> string \<Rightarrow> string" where
  "get_str m key dflt = (case m (KStr key) of None \<Rightarrow> dflt | Some v \<Rightarrow> v)"

text \<open>\<open>_format_sddnode_label\<close>, for a label dictionary that is present (\<open>sdd_to_dot\<close>
  replaces \<open>None\<close> by the empty dictionary before any node is formatted) and for a leaf
  node, the only nodes the renderer formats.  The name found for a true or a false node
  is looked up a second time, as the source does.\<close>

fun format_sddnode_label :: "sddnode \<Rightarrow> string option \<Rightarrow> litnamemap \<Rightarrow> string" where
  "format_sddnode_label node (Some name) m =
     (case m (KStr name) of None \<Rightarrow> name | Some v \<Rightarrow> v)"
| "format_sddnode_label (SddTrue i vt) None m =
     (let name = get_str m ''true'' glyph_true in get_str m name name)"
| "format_sddnode_label (SddFalse i vt) None m =
     (let name = get_str m ''false'' glyph_false in get_str m name name)"
| "format_sddnode_label (SddLiteral i vt l) None m =
     (case m (KInt l) of None \<Rightarrow> str_int l | Some v \<Rightarrow> v)"
| "format_sddnode_label (SddDecision i vt es) None m = []"

definition format_sddnode_xlabel :: "sddnode \<Rightarrow> string" where
  "format_sddnode_xlabel node =
     ''Id:'' @ str_int (node_id node) @ [CHR 0x5C] @ ''nVp:'' @
       (case node_vtree node of None \<Rightarrow> ''n'' | Some pos \<Rightarrow> str_int pos)"

text \<open>The state the traversal changes: the set \<open>visited\<close> of one call of \<open>sdd_to_dot\<close> and
  the module-level variable \<open>node_count\<close>.\<close>

record render_state =
  visited :: "int set"
  node_count :: nat

definition extra_options :: "bool \<Rightarrow> sddnode \<Rightarrow> string" where
  "extra_options show_id node =
     (if show_id then '',xlabel='' @ dq @ format_sddnode_xlabel node @ dq else [])"

definition leaf_to_dot ::
  "sddnode \<Rightarrow> litnamemap \<Rightarrow> bool \<Rightarrow> bool \<Rightarrow> render_state \<Rightarrow> (string \<times> string list) \<times> render_state" where
  "leaf_to_dot node m show_id merge_leafs st =
     (let st1 = (if merge_leafs then st\<lparr>visited := insert (node_id node) (visited st)\<rparr> else st);
          label = format_sddnode_label node None m;
          nodeid = (if merge_leafs then str_int (node_id node)
                    else ''n'' @ str_nat (node_count st1) @ ''_'' @ str_int (node_id node));
          st2 = (if merge_leafs then st1 else st1\<lparr>node_count := node_count st1 + 1\<rparr>)
      in ((nodeid,
           [nodeid @ '' [shape=rectangle,label='' @ dq @ label @ dq
              @ extra_options show_id node @ ''];'']), st2))"

definition decision_header :: "sddnode \<Rightarrow> litnamemap \<Rightarrow> bool \<Rightarrow> string" where
  "decision_header node m show_id =
     str_int (node_id node) @ '' [shape=circle,label='' @ dq @ get_str m ''add'' ''+'' @ dq
       @ extra_options show_id node @ ''];''"

definition ps_id_of :: "int \<Rightarrow> nat \<Rightarrow> string" where
  "ps_id_of i idx = ''ps_'' @ str_int i @ ''_'' @ str_nat idx"

definition element_lines :: "int \<Rightarrow> nat \<Rightarrow> litnamemap \<Rightarrow> string \<Rightarrow> string \<Rightarrow> string list" where
  "element_lines i idx m prime_id sub_id =
     [ps_id_of i idx @ '' [shape=circle, label='' @ dq @ get_str m ''mult'' glyph_mult @ dq @ ''];'',
      str_int i @ '' -> '' @ ps_id_of i idx @ '' [arrowhead=none];'',
      ps_id_of i idx @ '' -> '' @ prime_id @ '';'',
      ps_id_of i idx @ '' -> '' @ sub_id @ '';'']"

text \<open>\<open>_sddnode_to_dot_int\<close>.  The second function is the loop
  \<open>for idx, (prime, sub) in enumerate(node.elements())\<close> of a decision node with id \<open>i\<close>; it
  returns the lines the loop appends to \<open>s\<close>.\<close>

function sddnode_to_dot_int ::
      "sddnode \<Rightarrow> litnamemap \<Rightarrow> bool \<Rightarrow> bool \<Rightarrow> render_state \<Rightarrow> (string \<times> string list) \<times> render_state"
  and elements_to_dot ::
      "int \<Rightarrow> nat \<Rightarrow> (sddnode \<times> sddnode) list \<Rightarrow> litnamemap \<Rightarrow> bool \<Rightarrow> bool \<Rightarrow> render_state
         \<Rightarrow> string list \<times> render_state" where
  "sddnode_to_dot_int (SddTrue i vt) m show_id merge_leafs st =
     (if i \<in> visited st then ((str_int i, []), st)
      else leaf_to_dot (SddTrue i vt) m show_id merge_leafs st)"
| "sddnode_to_dot_int (SddFalse i vt) m show_id merge_leafs st =
     (if i \<in> visited st then ((str_int i, []), st)
      else leaf_to_dot (SddFalse i vt) m show_id merge_leafs st)"
| "sddnode_to_dot_int (SddLiteral i vt l) m show_id merge_leafs st =
     (if i \<in> visited st then ((str_int i, []), st)
      else leaf_to_dot (SddLiteral i vt l) m show_id merge_leafs st)"
| "sddnode_to_dot_int (SddDecision i vt es) m show_id merge_leafs st =
     (if i \<in> visited st then ((str_int i, []), st)
      else
        (let st1 = st\<lparr>visited := insert i (visited st)\<rparr>;
             (s, st2) = elements_to_dot i 0 es m show_id merge_leafs st1
         in ((str_int i, decision_header (SddDecision i vt es) m show_id # s), st2)))"
| "elements_to_dot i idx [] m show_id merge_leafs st = ([], st)"
| "elements_to_dot i idx ((prime, sub) # rest) m show_id merge_leafs st =
     (let ((prime_id, prime_s), st1) = sddnode_to_dot_int prime m show_id merge_leafs st;
          ((sub_id, sub_s), st2) = sddnode_to_dot_int sub m show_id merge_leafs st1;
          (rest_s, st3) = elements_to_dot i (idx + 1) rest m show_id merge_leafs st2
      in (element_lines i idx m prime_id sub_id @ prime_s @ sub_s @ rest_s, st3))"
  by pat_completeness auto
termination
  by (relation "measure (\<lambda>x. case x of
          Inl (node, _) \<Rightarrow> size node
        | Inr (_, _, es, _) \<Rightarrow> size_list (size_prod size size) es)") auto

text \<open>\<open>"\n".join(s)\<close>.\<close>

fun join_lines :: "string list \<Rightarrow> string" where
  "join_lines [] = []"
| "join_lines [x] = x"
| "join_lines (x # y # ys) = x @ [CHR 0x0A] @ join_lines (y # ys)"

text \<open>\<open>sdd_to_dot\<close>.  The last argument is the value of the module-level variable
  \<open>node_count\<close> when the call starts; the second component of the result is its value when
  the call ends.  A root that is \<open>None\<close> raises ValueError.\<close>

definition sdd_to_dot ::
  "sddnode option \<Rightarrow> litnamemap option \<Rightarrow> bool \<Rightarrow> bool \<Rightarrow> nat \<Rightarrow> (error + string) \<times> nat" where
  "sdd_to_dot node litnamemap show_id merge_leafs global_count =
     (let count0 = 0;
          m = (case litnamemap of None \<Rightarrow> Map.empty | Some d \<Rightarrow> d)
      in case node of
           None \<Rightarrow> (Inl (ValueError ''No root node given''), count0)
         | Some root_node \<Rightarrow>
             (let ((nodeid, root_s), st) =
                    sddnode_to_dot_int root_node m show_id merge_leafs \<lparr>visited = {}, node_count = count0\<rparr>
              in (Inr (join_lines ([''digraph sdd {''] @ root_s @ [''}''])), node_count st)))"

section \<open>Notions used to state the properties\<close>

text \<open>The weight held by slot \<open>c\<close> of a weight array, read the way the evaluators read it
  (a negative \<open>c\<close> counts from the end); \<open>None\<close> when the slot does not exist or holds
  \<open>None\<close>.\<close>

definition slot_weight :: "pyfloat option list \<Rightarrow> int \<Rightarrow> pyfloat option" where
  "slot_weight w c = (case py_index (length w) c of None \<Rightarrow> None | Some j \<Rightarrow> w ! j)"

text \<open>The index \<open>c\<close> denotes position \<open>l\<close> of the array.\<close>

definition refers_to :: "pyfloat option list \<Rightarrow> int \<Rightarrow> nat \<Rightarrow> bool" where
  "refers_to w c l \<longleftrightarrow> py_index (length w) c = Some l"

text \<open>The first field of a line, \<open>cols[0]\<close> in both evaluators.\<close>

definition leading_token :: "string \<Rightarrow> string" where
  "leading_token line = (case py_split (py_strip line) of [] \<Rightarrow> [] | c0 # _ \<Rightarrow> c0)"

text \<open>The body lines among the lines of a file: those that are not comment lines.\<close>

definition body_lines :: "string list \<Rightarrow> string list" where
  "body_lines ls = filter (\<lambda>x. leading_token x \<noteq> ''c'') ls"

text \<open>The nodes of the graph below a node (the node itself included), and the nodes below
  the elements of a decision node.\<close>

function subnodes :: "sddnode \<Rightarrow> sddnode set"
  and subnodes_elements :: "(sddnode \<times> sddnode) list \<Rightarrow> sddnode set" where
  "subnodes (SddTrue i vt) = {SddTrue i vt}"
| "subnodes (SddFalse i vt) = {SddFalse i vt}"
| "subnodes (SddLiteral i vt l) = {SddLiteral i vt l}"
| "subnodes (SddDecision i vt es) = insert (SddDecision i vt es) (subnodes_elements es)"
| "subnodes_elements [] = {}"
| "subnodes_elements ((prime, sub) # rest) = subnodes prime \<union> subnodes sub \<union> subnodes_elements rest"
  by pat_completeness auto
termination
  by (relation "measure (\<lambda>x. case x of
          Inl node \<Rightarrow> size node
        | Inr es \<Rightarrow> size_list (size_prod size size) es)") auto

fun is_decision :: "sddnode \<Rightarrow> bool" where
  "is_decision (SddDecision i vt es) = True"
| "is_decision _ = False"

definition decision_ids :: "sddnode \<Rightarrow> int set" where
  "decision_ids n = node_id ` {d \<in> subnodes n. is_decision d}"

definition leaf_ids :: "sddnode \<Rightarrow> int set" where
  "leaf_ids n = node_id ` {d \<in> subnodes n. \<not> is_decision d}"





text \<open>The lines of a text: the pieces between its newline characters, as Python's
  \<open>text.split("\n")\<close> gives them.\<close>

fun split_lines :: "string \<Rightarrow> string list" where
  "split_lines [] = [[]]"
| "split_lines (c # cs) =
     (if c = CHR 0x0A then [] # split_lines cs
      else (case split_lines cs of [] \<Rightarrow> [[c]] | l # ls \<Rightarrow> (c # l) # ls))"
















section \<open>Basic facts about the primitives\<close>

lemma bind_err_Inl [simp]: "bind_err (Inl e) f = Inl e"
  by (simp add: bind_err_def)

lemma bind_err_Inr [simp]: "bind_err (Inr x) f = f x"
  by (simp add: bind_err_def)

lemma bind_err_eq_Inr:
  "bind_err m f = Inr y \<longleftrightarrow> (\<exists>x. m = Inr x \<and> f x = Inr y)"
  by (cases m) simp_all

lemma py_index_nat: "i < n \<Longrightarrow> py_index n (int i) = Some i"
  by (simp add: py_index_def)

lemma py_index_less: "py_index n i = Some j \<Longrightarrow> j < n"
  by (auto simp: py_index_def split: if_splits)

lemma py_get_nat: "i < length xs \<Longrightarrow> py_get xs (int i) = Inr (xs ! i)"
  by (simp add: py_get_def py_index_nat)

lemma py_set_nat: "i < length xs \<Longrightarrow> py_set xs (int i) v = Inr (xs[i := v])"
  by (simp add: py_set_def py_index_nat)

lemma py_get_0: "py_get (x # xs) 0 = Inr x"
  using py_get_nat [of 0 "x # xs"] by simp

lemma py_get_1: "py_get (x # y # xs) 1 = Inr y"
  using py_get_nat [of 1 "x # y # xs"] by simp

lemma py_get_2: "py_get (x # y # z # xs) 2 = Inr z"
  using py_get_nat [of 2 "x # y # z # xs"] by simp

lemma py_get_3: "py_get (x # y # z # u # xs) 3 = Inr u"
  using py_get_nat [of 3 "x # y # z # u # xs"] by simp


lemma py_get_Nil: "py_get [] i = Inl IndexError"
  by (simp add: py_get_def py_index_def)

lemma py_get_singleton_1: "py_get [x] 1 = Inl IndexError"
  by (simp add: py_get_def py_index_def)

lemma py_get_last: "xs \<noteq> [] \<Longrightarrow> py_get xs (- 1) = Inr (last xs)"
  by (cases xs rule: rev_cases) (auto simp: py_get_def py_index_def nat_add_distrib)

lemma py_get_slot: "slot_weight w c = Some v \<Longrightarrow> py_get w c = Inr (Some v)"
  by (auto simp: slot_weight_def py_get_def split: option.splits)

lemma slot_weight_update:
  "\<not> refers_to w c l \<Longrightarrow> slot_weight (w[l := x]) c = slot_weight w c"
  by (auto simp: slot_weight_def refers_to_def split: option.splits)

lemma refers_to_update [simp]: "refers_to (w[l := x]) c l' = refers_to w c l'"
  by (simp add: refers_to_def)


lemma py_set_length: "py_set xs i v = Inr ys \<Longrightarrow> length ys = length xs"
  by (auto simp: py_set_def split: option.splits)
section \<open>NNF lines\<close>

lemma nnf_and_loop_fold:
  assumes "l < length w" and "w ! l = Some a"
    and "\<forall>i \<in> set is. 2 + i < length cols \<and>
           (\<exists>c. py_int (cols ! (2 + i)) = Inr c \<and> \<not> refers_to w c l \<and> slot_weight w c = Some (f i))"
  shows "nnf_and_loop cols l w is = Inr (w[l := Some (foldl fmul a (map f is))])"
  using assms
proof (induction "is" arbitrary: w a)
  case Nil
  then show ?case by (simp add: list_update_same_conv [THEN iffD2])
next
  case (Cons i "is")
  from Cons.prems(3) obtain c where i: "2 + i < length cols" "py_int (cols ! (2 + i)) = Inr c"
    "\<not> refers_to w c l" "slot_weight w c = Some (f i)" by auto
  let ?w = "w[l := Some (fmul a (f i))]"
  have tok: "py_get cols (2 + int i) = Inr (cols ! (2 + i))"
    using py_get_nat [OF i(1)] by simp
  have step: "nnf_and_loop cols l w (i # is) = nnf_and_loop cols l ?w is"
    using Cons.prems(1,2) i tok
    by (simp add: py_get_nat py_get_slot py_mul_def py_set_nat)
  have "nnf_and_loop cols l ?w is = Inr (?w[l := Some (foldl fmul (fmul a (f i)) (map f is))])"
  proof (rule Cons.IH)
    show "l < length ?w" using Cons.prems(1) by simp
    show "?w ! l = Some (fmul a (f i))" using Cons.prems(1) by simp
    show "\<forall>i \<in> set is. 2 + i < length cols \<and>
           (\<exists>c. py_int (cols ! (2 + i)) = Inr c \<and> \<not> refers_to ?w c l \<and> slot_weight ?w c = Some (f i))"
      using Cons.prems(3) by (auto simp: slot_weight_update)
  qed
  with step show ?case by simp
qed

lemma nnf_or_loop_fold:
  assumes "l < length w" and "w ! l = Some a"
    and "\<forall>i \<in> set is. 3 + i < length cols \<and>
           (\<exists>c. py_int (cols ! (3 + i)) = Inr c \<and> \<not> refers_to w c l \<and> slot_weight w c = Some (f i))"
  shows "nnf_or_loop cols l w is = Inr (w[l := Some (foldl fadd a (map f is))])"
  using assms
proof (induction "is" arbitrary: w a)
  case Nil
  then show ?case by (simp add: list_update_same_conv [THEN iffD2])
next
  case (Cons i "is")
  from Cons.prems(3) obtain c where i: "3 + i < length cols" "py_int (cols ! (3 + i)) = Inr c"
    "\<not> refers_to w c l" "slot_weight w c = Some (f i)" by auto
  let ?w = "w[l := Some (fadd a (f i))]"
  have tok: "py_get cols (3 + int i) = Inr (cols ! (3 + i))"
    using py_get_nat [OF i(1)] by simp
  have step: "nnf_or_loop cols l w (i # is) = nnf_or_loop cols l ?w is"
    using Cons.prems(1,2) i tok
    by (simp add: py_get_nat py_get_slot py_add_def py_set_nat)
  have "nnf_or_loop cols l ?w is = Inr (?w[l := Some (foldl fadd (fadd a (f i)) (map f is))])"
  proof (rule Cons.IH)
    show "l < length ?w" using Cons.prems(1) by simp
    show "?w ! l = Some (fadd a (f i))" using Cons.prems(1) by simp
    show "\<forall>i \<in> set is. 3 + i < length cols \<and>
           (\<exists>c. py_int (cols ! (3 + i)) = Inr c \<and> \<not> refers_to ?w c l \<and> slot_weight ?w c = Some (f i))"
      using Cons.prems(3) by (auto simp: slot_weight_update)
  qed
  with step show ?case by simp
qed

lemma children_indexed:
  assumes "map py_int (take k ctoks) = map Inr cs" and "map (slot_weight w) cs = map Some vs"
    and "k \<le> length ctoks" and "\<forall>c \<in> set cs. \<not> refers_to w c l" and "i < k"
  shows "py_int (ctoks ! i) = Inr (cs ! i) \<and> \<not> refers_to w (cs ! i) l
         \<and> slot_weight w (cs ! i) = Some (vs ! i) \<and> length cs = k \<and> length vs = k"
proof -
  have lc: "length cs = k" using assms(1,3) by (metis length_map length_take min.absorb2)
  have lv: "length vs = k" using assms(2) lc by (metis length_map)
  have "map py_int (take k ctoks) ! i = map Inr cs ! i" using assms(1) by simp
  then have a: "py_int (ctoks ! i) = Inr (cs ! i)" using assms(3,5) lc by simp
  have "map (slot_weight w) cs ! i = map Some vs ! i" using assms(2) by simp
  then have b: "slot_weight w (cs ! i) = Some (vs ! i)" using assms(5) lc lv by simp
  have "cs ! i \<in> set cs" using lc assms(5) by simp
  with assms(4) a b lc lv show ?thesis by blast
qed

lemma nnf_L_line:
  assumes cols: "py_split (py_strip line) = ''L'' # tok # rest"
    and lit: "py_int tok = Inr lit"
    and st: "detected_nnf st" "ln_nnf st < length (wmc_nnf st)"
  shows "nnf_line (Some tbl) line st =
           Inr (st\<lparr>wmc_nnf := (wmc_nnf st)[ln_nnf st := Some (case tbl lit of Some x \<Rightarrow> x | None \<Rightarrow> Finite 1)],
                   ln_nnf := ln_nnf st + 1\<rparr>)"
  using assms
  by (simp add: nnf_line_def Let_def py_get_0 py_get_1 nnf_L_def lit_weight_def true_weight_def
      py_set_nat split: option.splits)

lemma nnf_A_line:
  assumes cols: "py_split (py_strip line) = ''A'' # ktok # ctoks"
    and k: "py_int ktok = Inr k"
    and cs: "map py_int (take (nat k) ctoks) = map Inr cs" "nat k \<le> length ctoks"
    and vs: "map (slot_weight (wmc_nnf st)) cs = map Some vs"
    and other: "\<forall>c \<in> set cs. \<not> refers_to (wmc_nnf st) c (ln_nnf st)"
    and st: "detected_nnf st" "ln_nnf st < length (wmc_nnf st)"
  shows "nnf_line weights line st =
           Inr (st\<lparr>wmc_nnf := (wmc_nnf st)[ln_nnf st := Some (foldl fmul (Finite 1) vs)], ln_nnf := ln_nnf st + 1\<rparr>)"
proof -
  let ?w0 = "(wmc_nnf st)[ln_nnf st := Some (Finite 1)]"
  let ?cols = "''A'' # ktok # ctoks"
  have len: "length cs = nat k" "length vs = nat k"
    using cs vs by (metis length_map length_take min.absorb2)+
  have "nnf_and_loop ?cols (ln_nnf st) ?w0 [0..<nat k]
          = Inr (?w0[ln_nnf st := Some (foldl fmul (Finite 1) (map (\<lambda>i. vs ! i) [0..<nat k]))])"
  proof (rule nnf_and_loop_fold)
    show "ln_nnf st < length ?w0" using st by simp
    show "?w0 ! ln_nnf st = Some (Finite 1)" using st by simp
    show "\<forall>i \<in> set [0..<nat k]. 2 + i < length ?cols \<and>
           (\<exists>c. py_int (?cols ! (2 + i)) = Inr c \<and> \<not> refers_to ?w0 c (ln_nnf st)
                \<and> slot_weight ?w0 c = Some (vs ! i))"
    proof
      fix i assume "i \<in> set [0..<nat k]"
      then have i: "i < nat k" by simp
      from children_indexed [OF cs(1) vs cs(2) other i]
      show "2 + i < length ?cols \<and>
           (\<exists>c. py_int (?cols ! (2 + i)) = Inr c \<and> \<not> refers_to ?w0 c (ln_nnf st)
                \<and> slot_weight ?w0 c = Some (vs ! i))"
        using i cs(2) by (auto simp: slot_weight_update)
    qed
  qed
  moreover have "map (\<lambda>i. vs ! i) [0..<nat k] = vs"
    using len(2) by (metis map_nth)
  ultimately have loop: "nnf_and_loop ?cols (ln_nnf st) ?w0 (py_range k)
      = Inr ((wmc_nnf st)[ln_nnf st := Some (foldl fmul (Finite 1) vs)])"
    by (simp add: py_range_def)
  show ?thesis
    using cols k st loop
    by (simp add: nnf_line_def Let_def py_get_0 py_get_1 nnf_A_def py_set_nat)
qed

lemma nnf_O_line:
  assumes cols: "py_split (py_strip line) = ''O'' # jtok # ktok # ctoks"
    and k: "py_int ktok = Inr k"
    and cs: "map py_int (take (nat k) ctoks) = map Inr cs" "nat k \<le> length ctoks"
    and vs: "map (slot_weight (wmc_nnf st)) cs = map Some vs"
    and other: "\<forall>c \<in> set cs. \<not> refers_to (wmc_nnf st) c (ln_nnf st)"
    and st: "detected_nnf st" "ln_nnf st < length (wmc_nnf st)"
  shows "nnf_line weights line st =
           Inr (st\<lparr>wmc_nnf := (wmc_nnf st)[ln_nnf st := Some (foldl fadd (Finite 0) vs)], ln_nnf := ln_nnf st + 1\<rparr>)"
proof -
  let ?w0 = "(wmc_nnf st)[ln_nnf st := Some (Finite 0)]"
  let ?cols = "''O'' # jtok # ktok # ctoks"
  have len: "length cs = nat k" "length vs = nat k"
    using cs vs by (metis length_map length_take min.absorb2)+
  have "nnf_or_loop ?cols (ln_nnf st) ?w0 [0..<nat k]
          = Inr (?w0[ln_nnf st := Some (foldl fadd (Finite 0) (map (\<lambda>i. vs ! i) [0..<nat k]))])"
  proof (rule nnf_or_loop_fold)
    show "ln_nnf st < length ?w0" using st by simp
    show "?w0 ! ln_nnf st = Some (Finite 0)" using st by simp
    show "\<forall>i \<in> set [0..<nat k]. 3 + i < length ?cols \<and>
           (\<exists>c. py_int (?cols ! (3 + i)) = Inr c \<and> \<not> refers_to ?w0 c (ln_nnf st)
                \<and> slot_weight ?w0 c = Some (vs ! i))"
    proof
      fix i assume "i \<in> set [0..<nat k]"
      then have i: "i < nat k" by simp
      from children_indexed [OF cs(1) vs cs(2) other i]
      show "3 + i < length ?cols \<and>
           (\<exists>c. py_int (?cols ! (3 + i)) = Inr c \<and> \<not> refers_to ?w0 c (ln_nnf st)
                \<and> slot_weight ?w0 c = Some (vs ! i))"
        using i cs(2) by (auto simp: slot_weight_update)
    qed
  qed
  moreover have "map (\<lambda>i. vs ! i) [0..<nat k] = vs"
    using len(2) by (metis map_nth)
  ultimately have loop: "nnf_or_loop ?cols (ln_nnf st) ?w0 (py_range k)
      = Inr ((wmc_nnf st)[ln_nnf st := Some (foldl fadd (Finite 0) vs)])"
    by (simp add: py_range_def)
  show ?thesis
    using cols k st loop
    by (simp add: nnf_line_def Let_def py_get_0 py_get_1 py_get_2 nnf_O_def py_set_nat false_weight_def)
qed



lemma nnf_lines_append:
  "nnf_lines weights (xs @ ys) st = bind_err (nnf_lines weights xs st) (nnf_lines weights ys)"
proof (induction xs arbitrary: st)
  case Nil
  then show ?case by simp
next
  case (Cons x xs)
  then show ?case by (cases "nnf_line weights x st") simp_all
qed

text \<open>
  Claim C2.  An \<open>L <lit>\<close> line of an NNF file gives its slot the weight \<open>weights[lit]\<close> when
  the supplied table has the key \<open>lit\<close> and the weight 1.0 otherwise; a missing key is not an
  error.  The file \<open>nnf 1 0 1\<close> / \<open>L 1\<close> evaluates to 1.0 with the empty table and to 0.3
  (the float the literal \<open>0.3\<close> denotes) with the table \<open>{1: 0.3}\<close>.
\<close>

theorem nnf_literal_line_weight:
  "(py_split (py_strip line) = ''L'' # tok # rest \<and> py_int tok = Inr lit
      \<and> detected_nnf st \<and> ln_nnf st < length (wmc_nnf st)
    \<longrightarrow> nnf_line (Some tbl) line st =
          Inr (st\<lparr>wmc_nnf := (wmc_nnf st)[ln_nnf st := Some (case tbl lit of Some x \<Rightarrow> x | None \<Rightarrow> Finite 1)],
                  ln_nnf := ln_nnf st + 1\<rparr>))
   \<and> nnf_file_wmc ''nnf 1 0 1\<newline>L 1'' (Some Map.empty) = Inr (Some (Finite 1))
   \<and> nnf_file_wmc ''nnf 1 0 1\<newline>L 1'' (Some [1 \<mapsto> fl (3 / 10)]) = Inr (Some (fl (3 / 10)))"
proof (intro conjI impI)
  assume "py_split (py_strip line) = ''L'' # tok # rest \<and> py_int tok = Inr lit
      \<and> detected_nnf st \<and> ln_nnf st < length (wmc_nnf st)"
  then show "nnf_line (Some tbl) line st =
          Inr (st\<lparr>wmc_nnf := (wmc_nnf st)[ln_nnf st := Some (case tbl lit of Some x \<Rightarrow> x | None \<Rightarrow> Finite 1)],
                  ln_nnf := ln_nnf st + 1\<rparr>)"
    by (simp add: nnf_L_line)
next
  show "nnf_file_wmc ''nnf 1 0 1\<newline>L 1'' (Some Map.empty) = Inr (Some (Finite 1))"
    by code_simp
next
  show "nnf_file_wmc ''nnf 1 0 1\<newline>L 1'' (Some [1 \<mapsto> fl (3 / 10)]) = Inr (Some (fl (3 / 10)))"
    by code_simp
qed

theorem nnf_literal_line_weight_witness:
  "py_split (py_strip ''L 1\<newline>'') = ''L'' # ''1'' # [] \<and> py_int ''1'' = Inr 1
   \<and> detected_nnf \<lparr>wmc_nnf = [None], ln_nnf = 0, detected_nnf = True\<rparr>
   \<and> ln_nnf \<lparr>wmc_nnf = [None], ln_nnf = 0, detected_nnf = True\<rparr>
       < length (wmc_nnf \<lparr>wmc_nnf = [None], ln_nnf = 0, detected_nnf = True\<rparr>)
   \<and> nnf_line (Some [1 \<mapsto> fl (3 / 10)]) ''L 1\<newline>'' \<lparr>wmc_nnf = [None], ln_nnf = 0, detected_nnf = True\<rparr>
       = Inr \<lparr>wmc_nnf = [Some (fl (3 / 10))], ln_nnf = 1, detected_nnf = True\<rparr>
   \<and> nnf_line (Some Map.empty) ''L 1\<newline>'' \<lparr>wmc_nnf = [None], ln_nnf = 0, detected_nnf = True\<rparr>
       = Inr \<lparr>wmc_nnf = [Some (Finite 1)], ln_nnf = 1, detected_nnf = True\<rparr>"
proof -
  have a: "py_split (py_strip ''L 1\<newline>'') = ''L'' # ''1'' # []" by code_simp
  have b: "py_int ''1'' = Inr 1" by code_simp
  show ?thesis
    using a b
      nnf_literal_line_weight [of "''L 1\<newline>''" "''1''" "[]" 1
        "\<lparr>wmc_nnf = [None], ln_nnf = 0, detected_nnf = True\<rparr>" "[1 \<mapsto> fl (3 / 10)]"]
      nnf_literal_line_weight [of "''L 1\<newline>''" "''1''" "[]" 1
        "\<lparr>wmc_nnf = [None], ln_nnf = 0, detected_nnf = True\<rparr>" "Map.empty"]
    by simp
qed


section \<open>SDD lines\<close>

lemma sdd_elements_loop_fold:
  assumes "\<forall>idx \<in> set idxs. 2 * idx + 1 < length elmts
             \<and> slot_weight w (elmts ! (2 * idx)) = Some (fst (es ! idx))
             \<and> slot_weight w (elmts ! (2 * idx + 1)) = Some (snd (es ! idx))"
  shows "sdd_elements_loop w elmts (Some a) idxs
           = Inr (Some (foldl (\<lambda>acc idx. fadd acc (fmul (fst (es ! idx)) (snd (es ! idx)))) a idxs))"
  using assms
proof (induction idxs arbitrary: a)
  case Nil
  then show ?case by simp
next
  case (Cons idx idxs)
  then have i: "2 * idx + 1 < length elmts"
    "slot_weight w (elmts ! (2 * idx)) = Some (fst (es ! idx))"
    "slot_weight w (elmts ! (2 * idx + 1)) = Some (snd (es ! idx))" by simp_all
  have p: "py_get elmts (2 * int idx) = Inr (elmts ! (2 * idx))"
    using py_get_nat [of "2 * idx" elmts] i(1) by simp
  have s: "py_get elmts (2 * int idx + 1) = Inr (elmts ! (2 * idx + 1))"
    using py_get_nat [of "2 * idx + 1" elmts] i(1) by (simp add: add.commute)
  have "sdd_elements_loop w elmts (Some a) (idx # idxs)
          = sdd_elements_loop w elmts (Some (fadd a (fmul (fst (es ! idx)) (snd (es ! idx))))) idxs"
    using p s i(2,3) by (simp add: py_get_slot py_mul_def py_add_def)
  also have "\<dots> = Inr (Some (foldl (\<lambda>acc idx. fadd acc (fmul (fst (es ! idx)) (snd (es ! idx))))
                 (fadd a (fmul (fst (es ! idx)) (snd (es ! idx)))) idxs))"
    using Cons.prems by (intro Cons.IH) simp
  finally show ?case by simp
qed

lemma fold_indices:
  "foldl (\<lambda>acc idx. fadd acc (fmul (fst (es ! idx)) (snd (es ! idx)))) a [0..<length es]
     = foldl (\<lambda>acc (p, s). fadd acc (fmul p s)) a es"
proof (induction es rule: rev_induct)
  case Nil
  then show ?case by simp
next
  case (snoc e es)
  have "foldl (\<lambda>acc idx. fadd acc (fmul (fst ((es @ [e]) ! idx)) (snd ((es @ [e]) ! idx)))) a [0..<length es]
          = foldl (\<lambda>acc idx. fadd acc (fmul (fst (es ! idx)) (snd (es ! idx)))) a [0..<length es]"
    by (rule foldl_cong) (simp_all add: nth_append)
  with snoc show ?case by (simp add: case_prod_beta)
qed

lemma sdd_D_line:
  assumes cols: "py_split (py_strip line) = ''D'' # idtok # vtok # ktok # etoks"
    and nodeid: "py_int idtok = Inr nodeid" "py_index (length (wmc_sdd st)) nodeid = Some j"
    and k: "py_int ktok = Inr k" "length es = nat k"
    and elmts: "ints_of etoks = Inr elmts" "2 * nat k \<le> length elmts"
    and ws: "\<forall>idx < nat k. slot_weight (wmc_sdd st) (elmts ! (2 * idx)) = Some (fst (es ! idx))
                          \<and> slot_weight (wmc_sdd st) (elmts ! (2 * idx + 1)) = Some (snd (es ! idx))"
    and st: "detected_sdd st"
  shows "sdd_line weights line st =
           Inr (st\<lparr>wmc_sdd := (wmc_sdd st)[j := Some (foldl (\<lambda>acc (p, s). fadd acc (fmul p s)) (Finite 0) es)],
                   ln_sdd := ln_sdd st + 1\<rparr>)"
proof -
  let ?g = "\<lambda>acc idx. fadd acc (fmul (fst (es ! idx)) (snd (es ! idx)))"
  have "sdd_elements_loop (wmc_sdd st) elmts (Some (Finite 0)) [0..<nat k]
          = Inr (Some (foldl ?g (Finite 0) [0..<nat k]))"
    by (rule sdd_elements_loop_fold) (use elmts(2) ws in auto)
  moreover have "foldl ?g a [0..<length es] = foldl (\<lambda>acc (p, s). fadd acc (fmul p s)) a es" for a
    by (rule fold_indices)
  ultimately have loop: "sdd_elements_loop (wmc_sdd st) elmts (Some (Finite 0)) (py_range k)
      = Inr (Some (foldl (\<lambda>acc (p, s). fadd acc (fmul p s)) (Finite 0) es))"
    using k(2) by (simp add: py_range_def)
  show ?thesis
    using cols nodeid k(1) elmts(1) st loop
    by (simp add: sdd_line_def Let_def py_get_0 py_get_1 py_get_3 sdd_D_def py_set_def)
qed

lemma sdd_T_line:
  assumes "py_split (py_strip line) = ''T'' # idtok # rest"
    and "py_int idtok = Inr nodeid" "py_index (length (wmc_sdd st)) nodeid = Some j"
    and "detected_sdd st"
  shows "sdd_line weights line st =
           Inr (st\<lparr>wmc_sdd := (wmc_sdd st)[j := Some (Finite 1)], ln_sdd := ln_sdd st + 1\<rparr>)"
  using assms
  by (simp add: sdd_line_def Let_def py_get_0 py_get_1 sdd_T_def py_set_def true_weight_def)

lemma sdd_F_line:
  assumes "py_split (py_strip line) = ''F'' # idtok # rest"
    and "py_int idtok = Inr nodeid" "py_index (length (wmc_sdd st)) nodeid = Some j"
    and "detected_sdd st"
  shows "sdd_line weights line st =
           Inr (st\<lparr>wmc_sdd := (wmc_sdd st)[j := Some (Finite 0)], ln_sdd := ln_sdd st + 1\<rparr>)"
  using assms
  by (simp add: sdd_line_def Let_def py_get_0 py_get_1 sdd_F_def py_set_def false_weight_def)

text \<open>
  Claim C1.  A line \<open>D <id> <vtreeId> <elementCount> <p1> <s1> <p2> <s2> ...\<close> of an SDD file
  gives node \<open>id\<close> the sum, over the \<open>elementCount\<close> elements, of the weight of the prime
  times the weight of the sub, read from the weights the referenced ids already have.  Sum
  and products are those of Python floats, in the order of the source's loop: starting
  from 0.0, the rounded product of each element is added, from the first element to the
  last, every addition rounded.  In the file of Scenario 3, with the table \<open>{1: 0.4}\<close>,
  nodes 0 and 1 get the weights 0.4 and 1.0, and the decision node 2 with the elements
  (0, 1) and (1, 0) gets the float 0.8.
\<close>

theorem sdd_decision_line_weight:
  "(py_split (py_strip line) = ''D'' # idtok # vtok # ktok # etoks
      \<and> py_int idtok = Inr nodeid \<and> py_index (length (wmc_sdd st)) nodeid = Some j
      \<and> py_int ktok = Inr k \<and> length es = nat k
      \<and> ints_of etoks = Inr elmts \<and> 2 * nat k \<le> length elmts
      \<and> (\<forall>idx < nat k. slot_weight (wmc_sdd st) (elmts ! (2 * idx)) = Some (fst (es ! idx))
                      \<and> slot_weight (wmc_sdd st) (elmts ! (2 * idx + 1)) = Some (snd (es ! idx)))
      \<and> detected_sdd st
    \<longrightarrow> sdd_line weights line st =
          Inr (st\<lparr>wmc_sdd := (wmc_sdd st)[j := Some (foldl (\<lambda>acc (p, s). fadd acc (fmul p s)) (Finite 0) es)],
                  ln_sdd := ln_sdd st + 1\<rparr>))
   \<and> sdd_lines (Some [1 \<mapsto> fl (4 / 10)])
        (readlines ''sdd 3\<newline>L 0 0 1\<newline>L 1 0 -1\<newline>D 2 1 2 0 1 1 0\<newline>'') sdd_init
       = Inr \<lparr>wmc_sdd = [Some (fl (4 / 10)), Some (Finite 1), Some (fl (8 / 10))],
              ln_sdd = 3, detected_sdd = True\<rparr>"
proof (intro conjI impI)
  assume "py_split (py_strip line) = ''D'' # idtok # vtok # ktok # etoks
      \<and> py_int idtok = Inr nodeid \<and> py_index (length (wmc_sdd st)) nodeid = Some j
      \<and> py_int ktok = Inr k \<and> length es = nat k
      \<and> ints_of etoks = Inr elmts \<and> 2 * nat k \<le> length elmts
      \<and> (\<forall>idx < nat k. slot_weight (wmc_sdd st) (elmts ! (2 * idx)) = Some (fst (es ! idx))
                      \<and> slot_weight (wmc_sdd st) (elmts ! (2 * idx + 1)) = Some (snd (es ! idx)))
      \<and> detected_sdd st"
  then show "sdd_line weights line st =
          Inr (st\<lparr>wmc_sdd := (wmc_sdd st)[j := Some (foldl (\<lambda>acc (p, s). fadd acc (fmul p s)) (Finite 0) es)],
                  ln_sdd := ln_sdd st + 1\<rparr>)"
    using sdd_D_line [of line idtok vtok ktok etoks nodeid st j k es elmts weights] by blast
next
  show "sdd_lines (Some [1 \<mapsto> fl (4 / 10)])
        (readlines ''sdd 3\<newline>L 0 0 1\<newline>L 1 0 -1\<newline>D 2 1 2 0 1 1 0\<newline>'') sdd_init
       = Inr \<lparr>wmc_sdd = [Some (fl (4 / 10)), Some (Finite 1), Some (fl (8 / 10))],
              ln_sdd = 3, detected_sdd = True\<rparr>"
    by code_simp
qed

text \<open>The witness: the decision line of Scenario 3, in the state its two literal lines
  leave.\<close>

theorem sdd_decision_line_weight_witness:
  "sdd_line None ''D 2 1 2 0 1 1 0\<newline>''
       \<lparr>wmc_sdd = [Some (fl (4 / 10)), Some (Finite 1), None], ln_sdd = 2, detected_sdd = True\<rparr>
     = Inr \<lparr>wmc_sdd = [Some (fl (4 / 10)), Some (Finite 1), Some (fl (8 / 10))],
              ln_sdd = 3, detected_sdd = True\<rparr>"
proof -
  let ?before = "\<lparr>wmc_sdd = [Some (fl (4 / 10)), Some (Finite 1), None], ln_sdd = 2, detected_sdd = True\<rparr>"
  have cols: "py_split (py_strip ''D 2 1 2 0 1 1 0\<newline>'')
                = ''D'' # ''2'' # ''1'' # ''2'' # [''0'', ''1'', ''1'', ''0'']" by code_simp
  have two: "py_int ''2'' = Inr 2" by code_simp
  have j: "py_index (length (wmc_sdd ?before)) 2 = Some 2" by (simp add: py_index_def)
  have elmts: "ints_of [''0'', ''1'', ''1'', ''0''] = Inr [0, 1, 1, 0]" by code_simp
  have ws: "\<forall>idx < nat 2.
      slot_weight (wmc_sdd ?before) ([0, 1, 1, 0] ! (2 * idx))
        = Some (fst ([(fl (4 / 10), Finite 1), (Finite 1, fl (4 / 10))] ! idx))
      \<and> slot_weight (wmc_sdd ?before) ([0, 1, 1, 0] ! (2 * idx + 1))
        = Some (snd ([(fl (4 / 10), Finite 1), (Finite 1, fl (4 / 10))] ! idx))"
    by (simp add: slot_weight_def py_index_def less_Suc_eq numeral_2_eq_2)
  note inst = sdd_decision_line_weight [where line = "''D 2 1 2 0 1 1 0\<newline>''" and idtok = "''2''"
        and vtok = "''1''" and ktok = "''2''" and etoks = "[''0'', ''1'', ''1'', ''0'']"
        and nodeid = 2 and st = ?before and j = 2 and k = 2 and es = "[(fl (4 / 10), Finite 1), (Finite 1, fl (4 / 10))]"
        and elmts = "[0, 1, 1, 0]" and weights = None, THEN conjunct1, THEN mp]
  have v: "foldl (\<lambda>acc (p, s). fadd acc (fmul p s)) (Finite 0)
             [(fl (4 / 10), Finite 1), (Finite 1, fl (4 / 10))] = fl (8 / 10)" by code_simp
  have "sdd_line None ''D 2 1 2 0 1 1 0\<newline>'' ?before
     = Inr (?before\<lparr>wmc_sdd := (wmc_sdd ?before)[2 := Some (foldl (\<lambda>acc (p, s). fadd acc (fmul p s)) (Finite 0)
             [(fl (4 / 10), Finite 1), (Finite 1, fl (4 / 10))])],
                  ln_sdd := ln_sdd ?before + 1\<rparr>)"
    by (rule inst) (intro conjI cols two j elmts ws, simp_all)
  then show ?thesis unfolding v by simp
qed

text \<open>
  Claim C5.  \<open>sdd_file_wmc\<close> returns the content of slot 0 of the weight array, the weight
  of node id 0.  A \<open>T\<close> line gives its node the weight 1.0 and an \<open>F\<close> line the weight 0.0.
  For every weight table (also a missing one) the file \<open>sdd 1\<close> / \<open>T 0\<close> evaluates to 1.0 and
  the file \<open>sdd 1\<close> / \<open>F 0\<close> to 0.0.
\<close>

theorem sdd_result_node_zero:
  "(sdd_lines weights (readlines content) sdd_init = Inr st \<and> wmc_sdd st \<noteq> []
      \<longrightarrow> sdd_file_wmc content weights = Inr (wmc_sdd st ! 0))
   \<and> (py_split (py_strip line) = ''T'' # idtok # rest \<and> py_int idtok = Inr nodeid
        \<and> py_index (length (wmc_sdd st')) nodeid = Some j \<and> detected_sdd st'
      \<longrightarrow> sdd_line weights line st' =
            Inr (st'\<lparr>wmc_sdd := (wmc_sdd st')[j := Some (Finite 1)], ln_sdd := ln_sdd st' + 1\<rparr>))
   \<and> (py_split (py_strip line) = ''F'' # idtok # rest \<and> py_int idtok = Inr nodeid
        \<and> py_index (length (wmc_sdd st')) nodeid = Some j \<and> detected_sdd st'
      \<longrightarrow> sdd_line weights line st' =
            Inr (st'\<lparr>wmc_sdd := (wmc_sdd st')[j := Some (Finite 0)], ln_sdd := ln_sdd st' + 1\<rparr>))
   \<and> sdd_file_wmc ''sdd 1\<newline>T 0'' weights = Inr (Some (Finite 1))
   \<and> sdd_file_wmc ''sdd 1\<newline>F 0'' weights = Inr (Some (Finite 0))"
proof (intro conjI impI)
  assume a: "sdd_lines weights (readlines content) sdd_init = Inr st \<and> wmc_sdd st \<noteq> []"
  then have "py_get (wmc_sdd st) 0 = Inr (wmc_sdd st ! 0)"
    using py_get_nat [of 0 "wmc_sdd st"] by simp
  with a show "sdd_file_wmc content weights = Inr (wmc_sdd st ! 0)"
    by (simp add: sdd_file_wmc_def)
next
  assume "py_split (py_strip line) = ''T'' # idtok # rest \<and> py_int idtok = Inr nodeid
        \<and> py_index (length (wmc_sdd st')) nodeid = Some j \<and> detected_sdd st'"
  then show "sdd_line weights line st' =
            Inr (st'\<lparr>wmc_sdd := (wmc_sdd st')[j := Some (Finite 1)], ln_sdd := ln_sdd st' + 1\<rparr>)"
    using sdd_T_line by blast
next
  assume "py_split (py_strip line) = ''F'' # idtok # rest \<and> py_int idtok = Inr nodeid
        \<and> py_index (length (wmc_sdd st')) nodeid = Some j \<and> detected_sdd st'"
  then show "sdd_line weights line st' =
            Inr (st'\<lparr>wmc_sdd := (wmc_sdd st')[j := Some (Finite 0)], ln_sdd := ln_sdd st' + 1\<rparr>)"
    using sdd_F_line by blast
next
  show "sdd_file_wmc ''sdd 1\<newline>T 0'' weights = Inr (Some (Finite 1))" by code_simp
next
  show "sdd_file_wmc ''sdd 1\<newline>F 0'' weights = Inr (Some (Finite 0))" by code_simp
qed

theorem sdd_result_node_zero_witness:
  "sdd_file_wmc ''sdd 2\<newline>F 1\<newline>T 0\<newline>'' None = Inr ([Some (Finite 1), Some (Finite 0)] ! 0)
   \<and> sdd_line None ''T 0\<newline>'' \<lparr>wmc_sdd = [None, Some (Finite 0)], ln_sdd = 1, detected_sdd = True\<rparr>
       = Inr \<lparr>wmc_sdd = [Some (Finite 1), Some (Finite 0)], ln_sdd = 2, detected_sdd = True\<rparr>
   \<and> sdd_line None ''F 1\<newline>'' \<lparr>wmc_sdd = [None, None], ln_sdd = 0, detected_sdd = True\<rparr>
       = Inr \<lparr>wmc_sdd = [None, Some (Finite 0)], ln_sdd = 1, detected_sdd = True\<rparr>"
proof -
  let ?c = "''sdd 2\<newline>F 1\<newline>T 0\<newline>''"
  let ?empty = "\<lparr>wmc_sdd = [None, None], ln_sdd = 0, detected_sdd = True\<rparr>"
  let ?mid = "\<lparr>wmc_sdd = [None, Some (Finite 0)], ln_sdd = 1, detected_sdd = True\<rparr>"
  let ?final = "\<lparr>wmc_sdd = [Some (Finite 1), Some (Finite 0)], ln_sdd = 2, detected_sdd = True\<rparr>"
  have run: "sdd_lines None (readlines ?c) sdd_init = Inr ?final" by code_simp
  have t: "py_split (py_strip ''T 0\<newline>'') = ''T'' # ''0'' # []" by code_simp
  have f: "py_split (py_strip ''F 1\<newline>'') = ''F'' # ''1'' # []" by code_simp
  have i0: "py_int ''0'' = Inr 0" by code_simp
  have i1: "py_int ''1'' = Inr 1" by code_simp
  have 1: "sdd_file_wmc ?c None = Inr ([Some (Finite 1), Some (Finite 0)] ! 0)"
    using sdd_result_node_zero [where weights = None and content = ?c and st = ?final,
        THEN conjunct1] run by simp
  have 2: "sdd_line None ''T 0\<newline>'' ?mid = Inr ?final"
    using sdd_result_node_zero [where weights = None and line = "''T 0\<newline>''" and idtok = "''0''"
        and rest = "[]" and nodeid = 0 and st' = ?mid and j = 0,
        THEN conjunct2, THEN conjunct1] t i0
    by (simp add: py_index_def)
  have 3: "sdd_line None ''F 1\<newline>'' ?empty = Inr ?mid"
    using sdd_result_node_zero [where weights = None and line = "''F 1\<newline>''" and idtok = "''1''"
        and rest = "[]" and nodeid = 1 and st' = ?empty and j = 1,
        THEN conjunct2, THEN conjunct2, THEN conjunct1] f i1
    by (simp add: py_index_def)
  from 1 2 3 show ?thesis by simp
qed

section \<open>Headers, comments and unknown tokens\<close>

lemma py_split_not_Nil: "py_split s \<noteq> []"
  by (induction s) (auto split: list.splits)

lemma cols_leading: "py_get (py_split (py_strip line)) 0 = Inr (leading_token line)"
proof (cases "py_split (py_strip line)")
  case Nil
  then show ?thesis by (simp add: py_split_not_Nil)
next
  case (Cons c0 cols)
  then show ?thesis by (simp add: leading_token_def py_get_0)
qed

lemma cols_leading_Cons: "py_split (py_strip line) = c0 # cols \<Longrightarrow> leading_token line = c0"
  by (simp add: leading_token_def)

lemma nnf_line_comment: "leading_token line = ''c'' \<Longrightarrow> nnf_line weights line st = Inr st"
  by (simp add: nnf_line_def Let_def cols_leading)

lemma sdd_line_comment: "leading_token line = ''c'' \<Longrightarrow> sdd_line weights line st = Inr st"
  by (simp add: sdd_line_def Let_def cols_leading)

lemma nnf_lines_comments:
  "\<forall>l \<in> set ls. leading_token l = ''c'' \<Longrightarrow> nnf_lines weights ls st = Inr st"
  by (induction ls) (simp_all add: nnf_line_comment)

lemma sdd_lines_comments:
  "\<forall>l \<in> set ls. leading_token l = ''c'' \<Longrightarrow> sdd_lines weights ls st = Inr st"
  by (induction ls) (simp_all add: sdd_line_comment)

lemma sdd_lines_append:
  "sdd_lines weights (xs @ ys) st = bind_err (sdd_lines weights xs st) (sdd_lines weights ys)"
proof (induction xs arbitrary: st)
  case Nil
  then show ?case by simp
next
  case (Cons x xs)
  then show ?case by (cases "sdd_line weights x st") simp_all
qed

lemma nnf_no_header:
  assumes "\<forall>l \<in> set pre. leading_token l = ''c''"
    and "leading_token line \<noteq> ''c''" "leading_token line \<noteq> ''nnf''"
    and "readlines content = pre @ line # rest"
  shows "nnf_file_wmc content weights = Inl (Exception nnf_missing_header)"
proof -
  have "nnf_line weights line nnf_init = Inl (Exception nnf_missing_header)"
    using assms(2,3) by (simp add: nnf_line_def Let_def cols_leading nnf_init_def)
  then show ?thesis
    using assms(1,4) by (simp add: nnf_file_wmc_def nnf_lines_append nnf_lines_comments)
qed

lemma sdd_no_header:
  assumes "\<forall>l \<in> set pre. leading_token l = ''c''"
    and "leading_token line \<noteq> ''c''" "leading_token line \<noteq> ''sdd''"
    and "readlines content = pre @ line # rest"
  shows "sdd_file_wmc content weights = Inl (Exception sdd_missing_header)"
proof -
  have "sdd_line weights line sdd_init = Inl (Exception sdd_missing_header)"
    using assms(2,3) by (simp add: sdd_line_def Let_def cols_leading sdd_init_def)
  then show ?thesis
    using assms(1,4) by (simp add: sdd_file_wmc_def sdd_lines_append sdd_lines_comments)
qed

lemma nnf_unknown_token:
  assumes "leading_token line \<notin> {''c'', ''nnf'', ''L'', ''A'', ''O''}" and "detected_nnf st"
  shows "nnf_line weights line st = Inr (st\<lparr>ln_nnf := ln_nnf st + 1\<rparr>)"
  using assms by (simp add: nnf_line_def Let_def cols_leading)

lemma sdd_unknown_token:
  assumes "leading_token line \<notin> {''c'', ''sdd'', ''L'', ''F'', ''T'', ''D''}" and "detected_sdd st"
  shows "sdd_line weights line st = Inr (st\<lparr>ln_sdd := ln_sdd st + 1\<rparr>)"
  using assms by (simp add: sdd_line_def Let_def cols_leading)

lemma nnf_only_comments:
  assumes "\<forall>l \<in> set (readlines content). leading_token l = ''c''"
  shows "nnf_file_wmc content weights = Inl IndexError"
  using assms by (simp add: nnf_file_wmc_def nnf_lines_comments nnf_init_def py_get_Nil)

lemma sdd_only_comments:
  assumes "\<forall>l \<in> set (readlines content). leading_token l = ''c''"
  shows "sdd_file_wmc content weights = Inl IndexError"
  using assms by (simp add: sdd_file_wmc_def sdd_lines_comments sdd_init_def py_get_Nil)

lemma nnf_header_bad_count:
  "py_split (py_strip line) = [''nnf''] \<Longrightarrow> nnf_line weights line st = Inl IndexError"
  "py_split (py_strip line) = ''nnf'' # tok # rest \<Longrightarrow> py_int tok = Inl e \<Longrightarrow>
     nnf_line weights line st = Inl e"
  by (simp_all add: nnf_line_def Let_def py_get_0 py_get_1 py_get_singleton_1)

lemma sdd_header_bad_count:
  "py_split (py_strip line) = [''sdd''] \<Longrightarrow> sdd_line weights line st = Inl IndexError"
  "py_split (py_strip line) = ''sdd'' # tok # rest \<Longrightarrow> py_int tok = Inl e \<Longrightarrow>
     sdd_line weights line st = Inl e"
  by (simp_all add: sdd_line_def Let_def py_get_0 py_get_1 py_get_singleton_1)

text \<open>
  Claim C6 as stated does not hold.  A body line with an unrecognized leading token is
  accepted: the files below, each with a line \<open>X 5\<close>, are evaluated to 1.  The exception for
  a missing header carries no line number: it is the same value whether the offending
  line is the first or the third line of the file.
\<close>

theorem format_error_counterexample:
  "nnf_file_wmc ''nnf 1 0 1\<newline>L 1\<newline>X 5\<newline>'' (Some Map.empty) = Inr (Some (Finite 1))
   \<and> sdd_file_wmc ''sdd 1\<newline>X 5\<newline>T 0\<newline>'' (Some Map.empty) = Inr (Some (Finite 1))
   \<and> nnf_file_wmc ''L 1\<newline>'' (Some Map.empty) = Inl (Exception nnf_missing_header)
   \<and> nnf_file_wmc ''c a\<newline>c b\<newline>L 1\<newline>'' (Some Map.empty) = Inl (Exception nnf_missing_header)"
proof (intro conjI)
  show "nnf_file_wmc ''nnf 1 0 1\<newline>L 1\<newline>X 5\<newline>'' (Some Map.empty) = Inr (Some (Finite 1))"
    by code_simp
  show "sdd_file_wmc ''sdd 1\<newline>X 5\<newline>T 0\<newline>'' (Some Map.empty) = Inr (Some (Finite 1))"
    by code_simp
  show "nnf_file_wmc ''L 1\<newline>'' (Some Map.empty) = Inl (Exception nnf_missing_header)"
    by code_simp
  show "nnf_file_wmc ''c a\<newline>c b\<newline>L 1\<newline>'' (Some Map.empty) = Inl (Exception nnf_missing_header)"
    by code_simp
qed

text \<open>
  Claim C6, amended.  \<open>nnf_file_wmc\<close> and \<open>sdd_file_wmc\<close> raise the exception with the fixed
  message "An NNF (SDD) file should start with 'nnf' ('sdd')" when the first line that is
  not a comment does not start with the header token; the call then returns no value,
  whatever the rest of the file is.  A file with no line but comments raises IndexError.  A
  header line without a count raises IndexError, and one whose count is not an integer
  raises the ValueError of \<open>int()\<close>.  A body line whose leading token is not recognized is
  not an error: it only advances the line counter.
\<close>

theorem format_error_amended:
  "((\<forall>l \<in> set pre. leading_token l = ''c'') \<and> leading_token line \<noteq> ''c''
      \<and> leading_token line \<noteq> ''nnf'' \<and> readlines content = pre @ line # rest
    \<longrightarrow> nnf_file_wmc content weights = Inl (Exception nnf_missing_header))
   \<and> ((\<forall>l \<in> set pre. leading_token l = ''c'') \<and> leading_token line \<noteq> ''c''
      \<and> leading_token line \<noteq> ''sdd'' \<and> readlines content = pre @ line # rest
    \<longrightarrow> sdd_file_wmc content weights = Inl (Exception sdd_missing_header))
   \<and> ((\<forall>l \<in> set (readlines content). leading_token l = ''c'')
    \<longrightarrow> nnf_file_wmc content weights = Inl IndexError
        \<and> sdd_file_wmc content weights = Inl IndexError)
   \<and> (py_split (py_strip line) = [''nnf''] \<longrightarrow> nnf_line weights line nst = Inl IndexError)
   \<and> (py_split (py_strip line) = [''sdd''] \<longrightarrow> sdd_line weights line sst = Inl IndexError)
   \<and> (py_split (py_strip line) = ''nnf'' # tok # cols \<and> py_int tok = Inl e
    \<longrightarrow> nnf_line weights line nst = Inl e)
   \<and> (py_split (py_strip line) = ''sdd'' # tok # cols \<and> py_int tok = Inl e
    \<longrightarrow> sdd_line weights line sst = Inl e)
   \<and> (leading_token line \<notin> {''c'', ''nnf'', ''L'', ''A'', ''O''} \<and> detected_nnf nst
    \<longrightarrow> nnf_line weights line nst = Inr (nst\<lparr>ln_nnf := ln_nnf nst + 1\<rparr>))
   \<and> (leading_token line \<notin> {''c'', ''sdd'', ''L'', ''F'', ''T'', ''D''} \<and> detected_sdd sst
    \<longrightarrow> sdd_line weights line sst = Inr (sst\<lparr>ln_sdd := ln_sdd sst + 1\<rparr>))"
proof (intro conjI impI; (elim conjE)?)
  assume "\<forall>l \<in> set pre. leading_token l = ''c''" "leading_token line \<noteq> ''c''"
    "leading_token line \<noteq> ''nnf''" "readlines content = pre @ line # rest"
  then show "nnf_file_wmc content weights = Inl (Exception nnf_missing_header)"
    by (rule nnf_no_header)
next
  assume "\<forall>l \<in> set pre. leading_token l = ''c''" "leading_token line \<noteq> ''c''"
    "leading_token line \<noteq> ''sdd''" "readlines content = pre @ line # rest"
  then show "sdd_file_wmc content weights = Inl (Exception sdd_missing_header)"
    by (rule sdd_no_header)
next
  assume "\<forall>l \<in> set (readlines content). leading_token l = ''c''"
  then show "nnf_file_wmc content weights = Inl IndexError" by (rule nnf_only_comments)
next
  assume "\<forall>l \<in> set (readlines content). leading_token l = ''c''"
  then show "sdd_file_wmc content weights = Inl IndexError" by (rule sdd_only_comments)
next
  assume "py_split (py_strip line) = [''nnf'']"
  then show "nnf_line weights line nst = Inl IndexError" by (rule nnf_header_bad_count)
next
  assume "py_split (py_strip line) = [''sdd'']"
  then show "sdd_line weights line sst = Inl IndexError" by (rule sdd_header_bad_count)
next
  assume "py_split (py_strip line) = ''nnf'' # tok # cols" "py_int tok = Inl e"
  then show "nnf_line weights line nst = Inl e" by (rule nnf_header_bad_count)
next
  assume "py_split (py_strip line) = ''sdd'' # tok # cols" "py_int tok = Inl e"
  then show "sdd_line weights line sst = Inl e" by (rule sdd_header_bad_count)
next
  assume "leading_token line \<notin> {''c'', ''nnf'', ''L'', ''A'', ''O''}" "detected_nnf nst"
  then show "nnf_line weights line nst = Inr (nst\<lparr>ln_nnf := ln_nnf nst + 1\<rparr>)"
    by (rule nnf_unknown_token)
next
  assume "leading_token line \<notin> {''c'', ''sdd'', ''L'', ''F'', ''T'', ''D''}" "detected_sdd sst"
  then show "sdd_line weights line sst = Inr (sst\<lparr>ln_sdd := ln_sdd sst + 1\<rparr>)"
    by (rule sdd_unknown_token)
qed

theorem format_error_amended_witness:
  "nnf_file_wmc ''c x\<newline>L 1\<newline>nnf 1 0 1\<newline>'' None = Inl (Exception nnf_missing_header)
   \<and> sdd_file_wmc ''c x\<newline>T 0\<newline>sdd 1\<newline>'' None = Inl (Exception sdd_missing_header)
   \<and> nnf_file_wmc ''c a\<newline>c b\<newline>'' None = Inl IndexError
   \<and> sdd_file_wmc ''c a\<newline>c b\<newline>'' None = Inl IndexError
   \<and> nnf_line None ''nnf\<newline>'' nnf_init = Inl IndexError
   \<and> sdd_line None ''sdd\<newline>'' sdd_init = Inl IndexError
   \<and> nnf_line None ''nnf x 0 1\<newline>'' nnf_init = Inl (ValueError ''x'')
   \<and> sdd_line None ''sdd x\<newline>'' sdd_init = Inl (ValueError ''x'')
   \<and> nnf_line None ''X 5\<newline>'' \<lparr>wmc_nnf = [None], ln_nnf = 0, detected_nnf = True\<rparr>
       = Inr \<lparr>wmc_nnf = [None], ln_nnf = 1, detected_nnf = True\<rparr>
   \<and> sdd_line None ''X 5\<newline>'' \<lparr>wmc_sdd = [None], ln_sdd = 0, detected_sdd = True\<rparr>
       = Inr \<lparr>wmc_sdd = [None], ln_sdd = 1, detected_sdd = True\<rparr>"
proof -
  let ?nst = "\<lparr>wmc_nnf = [None], ln_nnf = 0, detected_nnf = True\<rparr>"
  let ?sst = "\<lparr>wmc_sdd = [None], ln_sdd = 0, detected_sdd = True\<rparr>"
  have h1: "(\<forall>l \<in> set [''c x\<newline>'']. leading_token l = ''c'') \<and> leading_token ''L 1\<newline>'' \<noteq> ''c''
      \<and> leading_token ''L 1\<newline>'' \<noteq> ''nnf''
      \<and> readlines ''c x\<newline>L 1\<newline>nnf 1 0 1\<newline>'' = [''c x\<newline>''] @ ''L 1\<newline>'' # [''nnf 1 0 1\<newline>'']"
    by code_simp
  have c1: "nnf_file_wmc ''c x\<newline>L 1\<newline>nnf 1 0 1\<newline>'' None = Inl (Exception nnf_missing_header)"
    using format_error_amended [where pre = "[''c x\<newline>'']" and line = "''L 1\<newline>''"
        and content = "''c x\<newline>L 1\<newline>nnf 1 0 1\<newline>''" and rest = "[''nnf 1 0 1\<newline>'']"
        and weights = None, THEN conjunct1, THEN mp, OF h1] .
  have h2: "(\<forall>l \<in> set [''c x\<newline>'']. leading_token l = ''c'') \<and> leading_token ''T 0\<newline>'' \<noteq> ''c''
      \<and> leading_token ''T 0\<newline>'' \<noteq> ''sdd''
      \<and> readlines ''c x\<newline>T 0\<newline>sdd 1\<newline>'' = [''c x\<newline>''] @ ''T 0\<newline>'' # [''sdd 1\<newline>'']"
    by code_simp
  have c2: "sdd_file_wmc ''c x\<newline>T 0\<newline>sdd 1\<newline>'' None = Inl (Exception sdd_missing_header)"
    using format_error_amended [where pre = "[''c x\<newline>'']" and line = "''T 0\<newline>''"
        and content = "''c x\<newline>T 0\<newline>sdd 1\<newline>''" and rest = "[''sdd 1\<newline>'']"
        and weights = None, THEN conjunct2, THEN conjunct1, THEN mp, OF h2] .
  have h3: "\<forall>l \<in> set (readlines ''c a\<newline>c b\<newline>''). leading_token l = ''c''"
    by code_simp
  have c3: "nnf_file_wmc ''c a\<newline>c b\<newline>'' None = Inl IndexError
        \<and> sdd_file_wmc ''c a\<newline>c b\<newline>'' None = Inl IndexError"
    using format_error_amended [where content = "''c a\<newline>c b\<newline>''" and weights = None,
        THEN conjunct2, THEN conjunct2, THEN conjunct1, THEN mp, OF h3] .
  have h4: "py_split (py_strip ''nnf\<newline>'') = [''nnf'']" by code_simp
  have c4: "nnf_line None ''nnf\<newline>'' nnf_init = Inl IndexError"
    using format_error_amended [where line = "''nnf\<newline>''" and weights = None and nst = nnf_init,
        THEN conjunct2, THEN conjunct2, THEN conjunct2, THEN conjunct1, THEN mp, OF h4] .
  have h5: "py_split (py_strip ''sdd\<newline>'') = [''sdd'']" by code_simp
  have c5: "sdd_line None ''sdd\<newline>'' sdd_init = Inl IndexError"
    using format_error_amended [where line = "''sdd\<newline>''" and weights = None and sst = sdd_init,
        THEN conjunct2, THEN conjunct2, THEN conjunct2, THEN conjunct2, THEN conjunct1,
        THEN mp, OF h5] .
  have h6: "py_split (py_strip ''nnf x 0 1\<newline>'') = ''nnf'' # ''x'' # [''0'', ''1'']
      \<and> py_int ''x'' = Inl (ValueError ''x'')" by code_simp
  have c6: "nnf_line None ''nnf x 0 1\<newline>'' nnf_init = Inl (ValueError ''x'')"
    using format_error_amended [where line = "''nnf x 0 1\<newline>''" and weights = None
        and nst = nnf_init and tok = "''x''" and cols = "[''0'', ''1'']" and e = "ValueError ''x''",
        THEN conjunct2, THEN conjunct2, THEN conjunct2, THEN conjunct2, THEN conjunct2,
        THEN conjunct1, THEN mp, OF h6] .
  have h7: "py_split (py_strip ''sdd x\<newline>'') = ''sdd'' # ''x'' # []
      \<and> py_int ''x'' = Inl (ValueError ''x'')" by code_simp
  have c7: "sdd_line None ''sdd x\<newline>'' sdd_init = Inl (ValueError ''x'')"
    using format_error_amended [where line = "''sdd x\<newline>''" and weights = None
        and sst = sdd_init and tok = "''x''" and cols = "[]" and e = "ValueError ''x''",
        THEN conjunct2, THEN conjunct2, THEN conjunct2, THEN conjunct2, THEN conjunct2,
        THEN conjunct2, THEN conjunct1, THEN mp, OF h7] .
  have h8: "leading_token ''X 5\<newline>'' \<notin> {''c'', ''nnf'', ''L'', ''A'', ''O''} \<and> detected_nnf ?nst"
    by code_simp
  have c8: "nnf_line None ''X 5\<newline>'' ?nst = Inr (?nst\<lparr>ln_nnf := ln_nnf ?nst + 1\<rparr>)"
    using format_error_amended [where line = "''X 5\<newline>''" and weights = None and nst = ?nst,
        THEN conjunct2, THEN conjunct2, THEN conjunct2, THEN conjunct2, THEN conjunct2,
        THEN conjunct2, THEN conjunct2, THEN conjunct1, THEN mp, OF h8] .
  have h9: "leading_token ''X 5\<newline>'' \<notin> {''c'', ''sdd'', ''L'', ''F'', ''T'', ''D''} \<and> detected_sdd ?sst"
    by code_simp
  have c9: "sdd_line None ''X 5\<newline>'' ?sst = Inr (?sst\<lparr>ln_sdd := ln_sdd ?sst + 1\<rparr>)"
    using format_error_amended [where line = "''X 5\<newline>''" and weights = None and sst = ?sst,
        THEN conjunct2, THEN conjunct2, THEN conjunct2, THEN conjunct2, THEN conjunct2,
        THEN conjunct2, THEN conjunct2, THEN conjunct2, THEN mp, OF h9] .
  from c1 c2 c3 c4 c5 c6 c7 c8 c9 show ?thesis by simp
qed

section \<open>The result of the NNF evaluator\<close>

lemma nnf_and_loop_length: "nnf_and_loop cols l w is = Inr w' \<Longrightarrow> length w' = length w"
proof (induction "is" arbitrary: w)
  case Nil
  then show ?case by simp
next
  case (Cons i "is")
  from Cons.prems obtain v w1 where "py_set w (int l) v = Inr w1" "nnf_and_loop cols l w1 is = Inr w'"
    by (auto simp: bind_err_eq_Inr)
  then show ?case using Cons.IH py_set_length by metis
qed

lemma nnf_or_loop_length: "nnf_or_loop cols l w is = Inr w' \<Longrightarrow> length w' = length w"
proof (induction "is" arbitrary: w)
  case Nil
  then show ?case by simp
next
  case (Cons i "is")
  from Cons.prems obtain v w1 where "py_set w (int l) v = Inr w1" "nnf_or_loop cols l w1 is = Inr w'"
    by (auto simp: bind_err_eq_Inr)
  then show ?case using Cons.IH py_set_length by metis
qed

lemma nnf_L_keeps:
  "nnf_L weights cols st = Inr st' \<Longrightarrow>
   length (wmc_nnf st') = length (wmc_nnf st) \<and> detected_nnf st' = detected_nnf st \<and> ln_nnf st' = ln_nnf st"
  by (auto simp: nnf_L_def bind_err_eq_Inr dest: py_set_length)

lemma nnf_A_keeps:
  "nnf_A cols st = Inr st' \<Longrightarrow>
   length (wmc_nnf st') = length (wmc_nnf st) \<and> detected_nnf st' = detected_nnf st \<and> ln_nnf st' = ln_nnf st"
  by (auto simp: nnf_A_def bind_err_eq_Inr dest!: py_set_length nnf_and_loop_length)

lemma nnf_O_keeps:
  "nnf_O cols st = Inr st' \<Longrightarrow>
   length (wmc_nnf st') = length (wmc_nnf st) \<and> detected_nnf st' = detected_nnf st \<and> ln_nnf st' = ln_nnf st"
  by (auto simp: nnf_O_def bind_err_eq_Inr dest!: py_set_length nnf_or_loop_length)

lemma nnf_line_keeps:
  assumes "nnf_line weights x st = Inr st'" and "leading_token x \<noteq> ''nnf''"
  shows "length (wmc_nnf st') = length (wmc_nnf st) \<and> detected_nnf st' = detected_nnf st
         \<and> ln_nnf st' = ln_nnf st + (if leading_token x = ''c'' then 0 else 1)"
proof (cases "leading_token x = ''c''")
  case True
  then show ?thesis using assms(1) by (simp add: nnf_line_comment)
next
  case False
  let ?cols = "py_split (py_strip x)"
  let ?c0 = "leading_token x"
  from assms False obtain st1 st2 st3 where
    1: "(if ?c0 = ''L'' then nnf_L weights ?cols st else Inr st) = Inr st1" and
    2: "(if ?c0 = ''A'' then nnf_A ?cols st1 else Inr st1) = Inr st2" and
    3: "(if ?c0 = ''O'' then nnf_O ?cols st2 else Inr st2) = Inr st3" and
    4: "st' = st3\<lparr>ln_nnf := ln_nnf st3 + 1\<rparr>"
    by (auto simp: nnf_line_def Let_def cols_leading bind_err_eq_Inr split: if_splits)
  have a: "length (wmc_nnf st1) = length (wmc_nnf st) \<and> detected_nnf st1 = detected_nnf st \<and> ln_nnf st1 = ln_nnf st"
    using 1 nnf_L_keeps by (cases "?c0 = ''L''") auto
  have b: "length (wmc_nnf st2) = length (wmc_nnf st1) \<and> detected_nnf st2 = detected_nnf st1 \<and> ln_nnf st2 = ln_nnf st1"
    using 2 nnf_A_keeps by (cases "?c0 = ''A''") auto
  have c: "length (wmc_nnf st3) = length (wmc_nnf st2) \<and> detected_nnf st3 = detected_nnf st2 \<and> ln_nnf st3 = ln_nnf st2"
    using 3 nnf_O_keeps by (cases "?c0 = ''O''") auto
  from a b c 4 False show ?thesis by simp
qed

lemma nnf_lines_keeps:
  assumes "nnf_lines weights ls st = Inr st'" and "\<forall>x \<in> set ls. leading_token x \<noteq> ''nnf''"
  shows "length (wmc_nnf st') = length (wmc_nnf st) \<and> detected_nnf st' = detected_nnf st
         \<and> ln_nnf st' = ln_nnf st + length (body_lines ls)"
  using assms
proof (induction ls arbitrary: st)
  case Nil
  then show ?case by (simp add: body_lines_def)
next
  case (Cons x ls)
  from Cons.prems(1) obtain st1 where x: "nnf_line weights x st = Inr st1"
    and r: "nnf_lines weights ls st1 = Inr st'"
    by (auto simp: bind_err_eq_Inr)
  from Cons.prems(2) have nx: "leading_token x \<noteq> ''nnf''" and nr: "\<forall>x \<in> set ls. leading_token x \<noteq> ''nnf''"
    by simp_all
  from nnf_line_keeps [OF x nx] Cons.IH [OF r nr] show ?case
    by (simp add: body_lines_def)
qed

lemma nnf_header_line:
  assumes "py_split (py_strip header) = ''nnf'' # ntok # hrest" and "py_int ntok = Inr n"
  shows "nnf_line weights header st = Inr (st\<lparr>wmc_nnf := replicate (nat n) None, detected_nnf := True\<rparr>)"
  using assms by (simp add: nnf_line_def Let_def py_get_0 py_get_1)

lemma body_lines_comments: "\<forall>x \<in> set ls. leading_token x = ''c'' \<Longrightarrow> body_lines ls = []"
  by (simp add: body_lines_def)

lemma nnf_before_last:
  assumes pre: "\<forall>x \<in> set pre. leading_token x = ''c''"
    and header: "py_split (py_strip header) = ''nnf'' # ntok # hrest" "py_int ntok = Inr n"
    and mid: "\<forall>x \<in> set mid. leading_token x \<noteq> ''nnf''"
    and run: "nnf_lines weights (pre @ header # mid) nnf_init = Inr st0"
  shows "detected_nnf st0 \<and> length (wmc_nnf st0) = nat n \<and> ln_nnf st0 = length (body_lines mid)"
proof -
  let ?h = "nnf_init\<lparr>wmc_nnf := replicate (nat n) None, detected_nnf := True\<rparr>"
  have "nnf_lines weights (pre @ header # mid) nnf_init = nnf_lines weights mid ?h"
    using pre nnf_header_line [OF header]
    by (simp add: nnf_lines_append nnf_lines_comments)
  with run have "nnf_lines weights mid ?h = Inr st0" by simp
  from nnf_lines_keeps [OF this mid] show ?thesis by (simp add: nnf_init_def)
qed

lemma nnf_last_body_line:
  assumes layout: "readlines content = pre @ header # mid @ l # post"
    and post: "\<forall>x \<in> set post. leading_token x = ''c''"
    and run: "nnf_lines weights (pre @ header # mid) nnf_init = Inr st0"
    and len: "length (wmc_nnf st0) = ln_nnf st0 + 1"
    and line: "nnf_line weights l st0 =
                 Inr (st0\<lparr>wmc_nnf := (wmc_nnf st0)[ln_nnf st0 := Some v], ln_nnf := ln_nnf st0 + 1\<rparr>)"
  shows "nnf_file_wmc content weights = Inr (Some v)"
proof -
  let ?st = "st0\<lparr>wmc_nnf := (wmc_nnf st0)[ln_nnf st0 := Some v], ln_nnf := ln_nnf st0 + 1\<rparr>"
  have "readlines content = (pre @ header # mid) @ [l] @ post" using layout by simp
  then have "nnf_lines weights (readlines content) nnf_init = Inr ?st"
    using run line post by (simp only: nnf_lines_append) (simp add: nnf_lines_comments)
  moreover have "wmc_nnf ?st \<noteq> []" using len by auto
  moreover have "last (wmc_nnf ?st) = Some v"
  proof -
    have "last (wmc_nnf ?st) = wmc_nnf ?st ! (length (wmc_nnf ?st) - 1)"
      using len by (intro last_conv_nth) auto
    then show ?thesis using len by simp
  qed
  ultimately show ?thesis by (simp add: nnf_file_wmc_def py_get_last)
qed

text \<open>
  Claim C4 as stated does not hold: \<open>nnf_file_wmc\<close> returns \<open>wmc[-1]\<close>, the last element
  of the array the header sized, whichever slot the last line wrote.  For the file
  \<open>nnf 2 0 1\<close> / \<open>L 1\<close> the only body line writes the weight 1.0 into slot 0, and the call
  returns \<open>None\<close>, the content of slot 1.
\<close>

theorem nnf_result_counterexample:
  "nnf_lines (Some Map.empty) (readlines ''nnf 2 0 1\<newline>L 1\<newline>'') nnf_init
     = Inr \<lparr>wmc_nnf = [Some (Finite 1), None], ln_nnf = 1, detected_nnf = True\<rparr>
   \<and> nnf_file_wmc ''nnf 2 0 1\<newline>L 1\<newline>'' (Some Map.empty) = Inr None"
proof
  show "nnf_lines (Some Map.empty) (readlines ''nnf 2 0 1\<newline>L 1\<newline>'') nnf_init
     = Inr \<lparr>wmc_nnf = [Some (Finite 1), None], ln_nnf = 1, detected_nnf = True\<rparr>"
    by code_simp
  show "nnf_file_wmc ''nnf 2 0 1\<newline>L 1\<newline>'' (Some Map.empty) = Inr None"
    by code_simp
qed

text \<open>
  Claim C4, amended.  When the lines are processed without an exception, \<open>nnf_file_wmc\<close>
  returns the last element of the weight array (and raises IndexError when the array is
  empty).  Take a file made of comment lines, then one header line \<open>nnf <n> ...\<close>, then body
  lines and comment lines in any order, where the header count \<open>n\<close> is the number of body
  lines (the lines after the header that are not comments), and whose lines up to the last
  body line are processed without an exception.  Then the slot of the last body line is the
  last slot of the array, and the call returns the weight that this line computes: for an
  \<open>L\<close> line, \<open>weights[lit]\<close> or 1.0; for an \<open>A\<close> line, the float product, and for an \<open>O\<close>
  line the float sum, of the weights its children hold, taken from left to right.  Comment
  lines may follow the last body line.
\<close>

theorem nnf_result_last_body_line:
  "(nnf_lines weights (readlines content) nnf_init = Inr st \<and> wmc_nnf st \<noteq> []
      \<longrightarrow> nnf_file_wmc content weights = Inr (last (wmc_nnf st)))
   \<and> (nnf_lines weights (readlines content) nnf_init = Inr st \<and> wmc_nnf st = []
      \<longrightarrow> nnf_file_wmc content weights = Inl IndexError)
   \<and> (readlines content = pre @ header # mid @ l # post
      \<and> (\<forall>x \<in> set pre. leading_token x = ''c'')
      \<and> py_split (py_strip header) = ''nnf'' # ntok # hrest \<and> py_int ntok = Inr n
      \<and> (\<forall>x \<in> set mid. leading_token x \<noteq> ''nnf'')
      \<and> (\<forall>x \<in> set post. leading_token x = ''c'')
      \<and> n = int (length (body_lines (mid @ l # post)))
      \<and> nnf_lines weights (pre @ header # mid) nnf_init = Inr st0
    \<longrightarrow> (leading_token l \<noteq> ''c'' \<longrightarrow> length (wmc_nnf st0) = ln_nnf st0 + 1)
       \<and> (py_split (py_strip l) = ''L'' # tok # rest \<and> py_int tok = Inr lit \<and> weights = Some tbl
          \<longrightarrow> nnf_file_wmc content weights
                = Inr (Some (case tbl lit of Some x \<Rightarrow> x | None \<Rightarrow> Finite 1)))
       \<and> (py_split (py_strip l) = ''A'' # ktok # ctoks \<and> py_int ktok = Inr k
            \<and> map py_int (take (nat k) ctoks) = map Inr cs \<and> nat k \<le> length ctoks
            \<and> map (slot_weight (wmc_nnf st0)) cs = map Some vs
            \<and> (\<forall>c \<in> set cs. \<not> refers_to (wmc_nnf st0) c (ln_nnf st0))
          \<longrightarrow> nnf_file_wmc content weights = Inr (Some (foldl fmul (Finite 1) vs)))
       \<and> (py_split (py_strip l) = ''O'' # jtok # ktok # ctoks \<and> py_int ktok = Inr k
            \<and> map py_int (take (nat k) ctoks) = map Inr cs \<and> nat k \<le> length ctoks
            \<and> map (slot_weight (wmc_nnf st0)) cs = map Some vs
            \<and> (\<forall>c \<in> set cs. \<not> refers_to (wmc_nnf st0) c (ln_nnf st0))
          \<longrightarrow> nnf_file_wmc content weights = Inr (Some (foldl fadd (Finite 0) vs))))"
proof (intro conjI impI)
  assume "nnf_lines weights (readlines content) nnf_init = Inr st \<and> wmc_nnf st \<noteq> []"
  then show "nnf_file_wmc content weights = Inr (last (wmc_nnf st))"
    by (simp add: nnf_file_wmc_def py_get_last)
next
  assume "nnf_lines weights (readlines content) nnf_init = Inr st \<and> wmc_nnf st = []"
  then show "nnf_file_wmc content weights = Inl IndexError"
    by (simp add: nnf_file_wmc_def py_get_Nil)
next
  assume a: "readlines content = pre @ header # mid @ l # post
      \<and> (\<forall>x \<in> set pre. leading_token x = ''c'')
      \<and> py_split (py_strip header) = ''nnf'' # ntok # hrest \<and> py_int ntok = Inr n
      \<and> (\<forall>x \<in> set mid. leading_token x \<noteq> ''nnf'')
      \<and> (\<forall>x \<in> set post. leading_token x = ''c'')
      \<and> n = int (length (body_lines (mid @ l # post)))
      \<and> nnf_lines weights (pre @ header # mid) nnf_init = Inr st0"
  assume lt: "leading_token l \<noteq> ''c''"
  from a have st0: "detected_nnf st0 \<and> length (wmc_nnf st0) = nat n \<and> ln_nnf st0 = length (body_lines mid)"
    by (intro nnf_before_last [of pre header ntok hrest n mid weights st0]) simp_all
  from a lt have n: "nat n = length (body_lines mid) + 1"
    by (simp add: body_lines_def)
  from st0 n show "length (wmc_nnf st0) = ln_nnf st0 + 1" by simp
next
  assume a: "readlines content = pre @ header # mid @ l # post
      \<and> (\<forall>x \<in> set pre. leading_token x = ''c'')
      \<and> py_split (py_strip header) = ''nnf'' # ntok # hrest \<and> py_int ntok = Inr n
      \<and> (\<forall>x \<in> set mid. leading_token x \<noteq> ''nnf'')
      \<and> (\<forall>x \<in> set post. leading_token x = ''c'')
      \<and> n = int (length (body_lines (mid @ l # post)))
      \<and> nnf_lines weights (pre @ header # mid) nnf_init = Inr st0"
  assume b: "py_split (py_strip l) = ''L'' # tok # rest \<and> py_int tok = Inr lit \<and> weights = Some tbl"
  from b have lt: "leading_token l = ''L''" by (simp add: cols_leading_Cons)
  from a have st0: "detected_nnf st0 \<and> length (wmc_nnf st0) = nat n \<and> ln_nnf st0 = length (body_lines mid)"
    by (intro nnf_before_last [of pre header ntok hrest n mid weights st0]) simp_all
  from a lt have n: "nat n = length (body_lines mid) + 1"
    by (simp add: body_lines_def)
  have "nnf_line (Some tbl) l st0 =
           Inr (st0\<lparr>wmc_nnf := (wmc_nnf st0)[ln_nnf st0 := Some (case tbl lit of Some x \<Rightarrow> x | None \<Rightarrow> Finite 1)],
                   ln_nnf := ln_nnf st0 + 1\<rparr>)"
    using b st0 n by (intro nnf_L_line [of l tok rest lit st0 tbl]) simp_all
  with a b st0 n show "nnf_file_wmc content weights
                = Inr (Some (case tbl lit of Some x \<Rightarrow> x | None \<Rightarrow> Finite 1))"
    by (intro nnf_last_body_line [of content pre header mid l post weights st0]) simp_all
next
  assume a: "readlines content = pre @ header # mid @ l # post
      \<and> (\<forall>x \<in> set pre. leading_token x = ''c'')
      \<and> py_split (py_strip header) = ''nnf'' # ntok # hrest \<and> py_int ntok = Inr n
      \<and> (\<forall>x \<in> set mid. leading_token x \<noteq> ''nnf'')
      \<and> (\<forall>x \<in> set post. leading_token x = ''c'')
      \<and> n = int (length (body_lines (mid @ l # post)))
      \<and> nnf_lines weights (pre @ header # mid) nnf_init = Inr st0"
  assume b: "py_split (py_strip l) = ''A'' # ktok # ctoks \<and> py_int ktok = Inr k
            \<and> map py_int (take (nat k) ctoks) = map Inr cs \<and> nat k \<le> length ctoks
            \<and> map (slot_weight (wmc_nnf st0)) cs = map Some vs
            \<and> (\<forall>c \<in> set cs. \<not> refers_to (wmc_nnf st0) c (ln_nnf st0))"
  from b have lt: "leading_token l = ''A''" by (simp add: cols_leading_Cons)
  from a have st0: "detected_nnf st0 \<and> length (wmc_nnf st0) = nat n \<and> ln_nnf st0 = length (body_lines mid)"
    by (intro nnf_before_last [of pre header ntok hrest n mid weights st0]) simp_all
  from a lt have n: "nat n = length (body_lines mid) + 1"
    by (simp add: body_lines_def)
  have "nnf_line weights l st0 =
           Inr (st0\<lparr>wmc_nnf := (wmc_nnf st0)[ln_nnf st0 := Some (foldl fmul (Finite 1) vs)],
                   ln_nnf := ln_nnf st0 + 1\<rparr>)"
    using b st0 n by (intro nnf_A_line [of l ktok ctoks k cs st0 vs weights]) simp_all
  with a st0 n show "nnf_file_wmc content weights = Inr (Some (foldl fmul (Finite 1) vs))"
    by (intro nnf_last_body_line [of content pre header mid l post weights st0]) simp_all
next
  assume a: "readlines content = pre @ header # mid @ l # post
      \<and> (\<forall>x \<in> set pre. leading_token x = ''c'')
      \<and> py_split (py_strip header) = ''nnf'' # ntok # hrest \<and> py_int ntok = Inr n
      \<and> (\<forall>x \<in> set mid. leading_token x \<noteq> ''nnf'')
      \<and> (\<forall>x \<in> set post. leading_token x = ''c'')
      \<and> n = int (length (body_lines (mid @ l # post)))
      \<and> nnf_lines weights (pre @ header # mid) nnf_init = Inr st0"
  assume b: "py_split (py_strip l) = ''O'' # jtok # ktok # ctoks \<and> py_int ktok = Inr k
            \<and> map py_int (take (nat k) ctoks) = map Inr cs \<and> nat k \<le> length ctoks
            \<and> map (slot_weight (wmc_nnf st0)) cs = map Some vs
            \<and> (\<forall>c \<in> set cs. \<not> refers_to (wmc_nnf st0) c (ln_nnf st0))"
  from b have lt: "leading_token l = ''O''" by (simp add: cols_leading_Cons)
  from a have st0: "detected_nnf st0 \<and> length (wmc_nnf st0) = nat n \<and> ln_nnf st0 = length (body_lines mid)"
    by (intro nnf_before_last [of pre header ntok hrest n mid weights st0]) simp_all
  from a lt have n: "nat n = length (body_lines mid) + 1"
    by (simp add: body_lines_def)
  have "nnf_line weights l st0 =
           Inr (st0\<lparr>wmc_nnf := (wmc_nnf st0)[ln_nnf st0 := Some (foldl fadd (Finite 0) vs)],
                   ln_nnf := ln_nnf st0 + 1\<rparr>)"
    using b st0 n by (intro nnf_O_line [of l jtok ktok ctoks k cs st0 vs weights]) simp_all
  with a st0 n show "nnf_file_wmc content weights = Inr (Some (foldl fadd (Finite 0) vs))"
    by (intro nnf_last_body_line [of content pre header mid l post weights st0]) simp_all
qed

text \<open>The witness: three files whose last body line is an \<open>L\<close>, an \<open>A\<close> and an \<open>O\<close> line, with
  comment lines before the header, between the body lines and after the last one.\<close>

theorem nnf_result_last_body_line_witness:
  "nnf_file_wmc ''nnf 1 0 1\<newline>L 1\<newline>c end\<newline>'' (Some [1 \<mapsto> fl (3 / 10)]) = Inr (Some (fl (3 / 10)))
   \<and> nnf_file_wmc ''nnf 3 2 2\<newline>L 1\<newline>L 2\<newline>A 2 0 1\<newline>c end\<newline>'' (Some [1 \<mapsto> fl (1 / 10), 2 \<mapsto> fl (2 / 10)])
       = Inr (Some (Finite (1441151880758559 / 72057594037927936)))
   \<and> nnf_file_wmc ''c x\<newline>nnf 3 2 2\<newline>L 1\<newline>c y\<newline>L 2\<newline>O 0 2 0 1\<newline>'' (Some [1 \<mapsto> fl (1 / 10), 2 \<mapsto> fl (2 / 10)])
       = Inr (Some (Finite (1351079888211149 / 4503599627370496)))
   \<and> nnf_file_wmc ''nnf 0 0 0\<newline>'' None = Inl IndexError
   \<and> nnf_file_wmc ''nnf 2 0 1\<newline>L 1\<newline>'' (Some Map.empty) = Inr (last [Some (Finite 1), None])"
proof -
  let ?w = "Some [1 \<mapsto> fl (1 / 10), 2 \<mapsto> fl (2 / 10)]"
  let ?two = "\<lparr>wmc_nnf = [Some (fl (1 / 10)), Some (fl (2 / 10)), None], ln_nnf = 2, detected_nnf = True\<rparr>"
  have c_end: "leading_token ''c end\<newline>'' = ''c''" by code_simp
  have c_x: "leading_token ''c x\<newline>'' = ''c''" by code_simp
  have l1: "py_split (py_strip ''L 1\<newline>'') = ''L'' # ''1'' # []" by code_simp
  have i1: "py_int ''1'' = Inr 1" by code_simp
  have i2: "py_int ''2'' = Inr 2" by code_simp
  have i3: "py_int ''3'' = Inr 3" by code_simp
  have cs: "map py_int (take (nat 2) [''0'', ''1'']) = map Inr [0, 1]" by code_simp
  have vs: "map (slot_weight (wmc_nnf ?two)) [0, 1] = map Some [fl (1 / 10), fl (2 / 10)]"
    by (simp add: slot_weight_def py_index_def)
  have other: "\<forall>c \<in> set [0, 1]. \<not> refers_to (wmc_nnf ?two) c (ln_nnf ?two)"
    by (simp add: refers_to_def py_index_def)
  have p: "foldl fmul (Finite 1) [fl (1 / 10), fl (2 / 10)]
             = Finite (1441151880758559 / 72057594037927936)" by code_simp
  have s: "foldl fadd (Finite 0) [fl (1 / 10), fl (2 / 10)]
             = Finite (1351079888211149 / 4503599627370496)" by code_simp

  let ?cL = "''nnf 1 0 1\<newline>L 1\<newline>c end\<newline>''"
  let ?wL = "Some [1 \<mapsto> fl (3 / 10)]"
  have "readlines ?cL = [] @ ''nnf 1 0 1\<newline>'' # [] @ ''L 1\<newline>'' # [''c end\<newline>'']
      \<and> (\<forall>x \<in> set []. leading_token x = ''c'')
      \<and> py_split (py_strip ''nnf 1 0 1\<newline>'') = ''nnf'' # ''1'' # [''0'', ''1''] \<and> py_int ''1'' = Inr 1
      \<and> (\<forall>x \<in> set []. leading_token x \<noteq> ''nnf'')
      \<and> (\<forall>x \<in> set [''c end\<newline>'']. leading_token x = ''c'')
      \<and> 1 = int (length (body_lines ([] @ ''L 1\<newline>'' # [''c end\<newline>''])))
      \<and> nnf_lines ?wL ([] @ ''nnf 1 0 1\<newline>'' # []) nnf_init
          = Inr \<lparr>wmc_nnf = [None], ln_nnf = 0, detected_nnf = True\<rparr>"
    by code_simp
  from nnf_result_last_body_line [where content = ?cL and weights = ?wL and pre = "[]"
      and header = "''nnf 1 0 1\<newline>''" and ntok = "''1''" and hrest = "[''0'', ''1'']" and n = 1
      and mid = "[]" and l = "''L 1\<newline>''" and post = "[''c end\<newline>'']"
      and st0 = "\<lparr>wmc_nnf = [None], ln_nnf = 0, detected_nnf = True\<rparr>"
      and tok = "''1''" and rest = "[]" and lit = 1 and tbl = "[1 \<mapsto> fl (3 / 10)]",
      THEN conjunct2, THEN conjunct2, THEN mp, OF this, THEN conjunct2, THEN conjunct1]
  have 1: "nnf_file_wmc ?cL ?wL = Inr (Some (fl (3 / 10)))"
    using l1 i1 by simp

  let ?cA = "''nnf 3 2 2\<newline>L 1\<newline>L 2\<newline>A 2 0 1\<newline>c end\<newline>''"
  have la: "py_split (py_strip ''A 2 0 1\<newline>'') = ''A'' # ''2'' # [''0'', ''1'']" by code_simp
  have "readlines ?cA = [] @ ''nnf 3 2 2\<newline>'' # [''L 1\<newline>'', ''L 2\<newline>''] @ ''A 2 0 1\<newline>'' # [''c end\<newline>'']
      \<and> (\<forall>x \<in> set []. leading_token x = ''c'')
      \<and> py_split (py_strip ''nnf 3 2 2\<newline>'') = ''nnf'' # ''3'' # [''2'', ''2''] \<and> py_int ''3'' = Inr 3
      \<and> (\<forall>x \<in> set [''L 1\<newline>'', ''L 2\<newline>'']. leading_token x \<noteq> ''nnf'')
      \<and> (\<forall>x \<in> set [''c end\<newline>'']. leading_token x = ''c'')
      \<and> 3 = int (length (body_lines ([''L 1\<newline>'', ''L 2\<newline>''] @ ''A 2 0 1\<newline>'' # [''c end\<newline>''])))
      \<and> nnf_lines ?w ([] @ ''nnf 3 2 2\<newline>'' # [''L 1\<newline>'', ''L 2\<newline>'']) nnf_init = Inr ?two"
    by code_simp
  note inst_a = nnf_result_last_body_line [where content = ?cA and weights = ?w and pre = "[]"
      and header = "''nnf 3 2 2\<newline>''" and ntok = "''3''" and hrest = "[''2'', ''2'']" and n = 3
      and mid = "[''L 1\<newline>'', ''L 2\<newline>'']" and l = "''A 2 0 1\<newline>''" and post = "[''c end\<newline>'']"
      and st0 = ?two and ktok = "''2''" and ctoks = "[''0'', ''1'']" and k = 2 and cs = "[0, 1]"
      and vs = "[fl (1 / 10), fl (2 / 10)]",
      THEN conjunct2, THEN conjunct2, THEN mp, OF this, THEN conjunct2, THEN conjunct2, THEN conjunct1, THEN mp]
  have "nnf_file_wmc ?cA ?w = Inr (Some (foldl fmul (Finite 1) [fl (1 / 10), fl (2 / 10)]))"
    by (rule inst_a) (intro conjI la i2 cs vs other, simp_all)
  then have 2: "nnf_file_wmc ?cA ?w = Inr (Some (Finite (1441151880758559 / 72057594037927936)))"
    unfolding p .

  let ?cO = "''c x\<newline>nnf 3 2 2\<newline>L 1\<newline>c y\<newline>L 2\<newline>O 0 2 0 1\<newline>''"
  have lo: "py_split (py_strip ''O 0 2 0 1\<newline>'') = ''O'' # ''0'' # ''2'' # [''0'', ''1'']" by code_simp
  have "readlines ?cO = [''c x\<newline>''] @ ''nnf 3 2 2\<newline>'' # [''L 1\<newline>'', ''c y\<newline>'', ''L 2\<newline>''] @ ''O 0 2 0 1\<newline>'' # []
      \<and> (\<forall>x \<in> set [''c x\<newline>'']. leading_token x = ''c'')
      \<and> py_split (py_strip ''nnf 3 2 2\<newline>'') = ''nnf'' # ''3'' # [''2'', ''2''] \<and> py_int ''3'' = Inr 3
      \<and> (\<forall>x \<in> set [''L 1\<newline>'', ''c y\<newline>'', ''L 2\<newline>'']. leading_token x \<noteq> ''nnf'')
      \<and> (\<forall>x \<in> set []. leading_token x = ''c'')
      \<and> 3 = int (length (body_lines ([''L 1\<newline>'', ''c y\<newline>'', ''L 2\<newline>''] @ ''O 0 2 0 1\<newline>'' # [])))
      \<and> nnf_lines ?w ([''c x\<newline>''] @ ''nnf 3 2 2\<newline>'' # [''L 1\<newline>'', ''c y\<newline>'', ''L 2\<newline>'']) nnf_init = Inr ?two"
    by code_simp
  note inst_o = nnf_result_last_body_line [where content = ?cO and weights = ?w and pre = "[''c x\<newline>'']"
      and header = "''nnf 3 2 2\<newline>''" and ntok = "''3''" and hrest = "[''2'', ''2'']" and n = 3
      and mid = "[''L 1\<newline>'', ''c y\<newline>'', ''L 2\<newline>'']" and l = "''O 0 2 0 1\<newline>''" and post = "[]"
      and st0 = ?two and jtok = "''0''" and ktok = "''2''" and ctoks = "[''0'', ''1'']" and k = 2
      and cs = "[0, 1]" and vs = "[fl (1 / 10), fl (2 / 10)]",
      THEN conjunct2, THEN conjunct2, THEN mp, OF this, THEN conjunct2, THEN conjunct2, THEN conjunct2, THEN mp]
  have "nnf_file_wmc ?cO ?w = Inr (Some (foldl fadd (Finite 0) [fl (1 / 10), fl (2 / 10)]))"
    by (rule inst_o) (intro conjI lo i2 cs vs other, simp_all)
  then have 3: "nnf_file_wmc ?cO ?w = Inr (Some (Finite (1351079888211149 / 4503599627370496)))"
    unfolding s .

  have e: "nnf_lines None (readlines ''nnf 0 0 0\<newline>'') nnf_init
             = Inr \<lparr>wmc_nnf = [], ln_nnf = 0, detected_nnf = True\<rparr>" by code_simp
  have 4: "nnf_file_wmc ''nnf 0 0 0\<newline>'' None = Inl IndexError"
    using nnf_result_last_body_line [where weights = None and content = "''nnf 0 0 0\<newline>''"
        and st = "\<lparr>wmc_nnf = [], ln_nnf = 0, detected_nnf = True\<rparr>", THEN conjunct2, THEN conjunct1] e
    by simp
  have f: "nnf_lines (Some Map.empty) (readlines ''nnf 2 0 1\<newline>L 1\<newline>'') nnf_init
     = Inr \<lparr>wmc_nnf = [Some (Finite 1), None], ln_nnf = 1, detected_nnf = True\<rparr>" by code_simp
  have 5: "nnf_file_wmc ''nnf 2 0 1\<newline>L 1\<newline>'' (Some Map.empty) = Inr (last [Some (Finite 1), None])"
    using nnf_result_last_body_line [where weights = "Some Map.empty" and content = "''nnf 2 0 1\<newline>L 1\<newline>''"
        and st = "\<lparr>wmc_nnf = [Some (Finite 1), None], ln_nnf = 1, detected_nnf = True\<rparr>", THEN conjunct1] f
    by simp
  show ?thesis
    by (intro conjI 1 2 3 4 5)
qed
section \<open>The renderer\<close>

text \<open>
  Claim C8.  Two calls of \<open>sdd_to_dot\<close> with the same root, label dictionary and flags give
  the same text, whatever value the module-level counter has when a call starts and, in
  particular, when the second call starts with the value the first call left: every call
  sets the counter to zero and starts with an empty visited set, so the first leaf that is
  not merged is always named \<open>n0_<id>\<close>.
\<close>

theorem sdd_to_dot_repeatable:
  "fst (sdd_to_dot node litnamemap show_id merge_leafs g)
     = fst (sdd_to_dot node litnamemap show_id merge_leafs g')
   \<and> sdd_to_dot node litnamemap show_id merge_leafs
        (snd (sdd_to_dot node litnamemap show_id merge_leafs g))
     = sdd_to_dot node litnamemap show_id merge_leafs g
   \<and> sdd_to_dot (Some n) litnamemap show_id merge_leafs g
     = (let r = sddnode_to_dot_int n (case litnamemap of None \<Rightarrow> Map.empty | Some d \<Rightarrow> d)
                  show_id merge_leafs \<lparr>visited = {}, node_count = 0\<rparr>
        in (Inr (join_lines ([''digraph sdd {''] @ snd (fst r) @ [''}''])), node_count (snd r)))
   \<and> fst (sdd_to_dot (Some (SddTrue i vt)) None False False g)
     = Inr (join_lines [''digraph sdd {'',
              ''n0_'' @ str_int i @ '' [shape=rectangle,label='' @ dq @ glyph_true @ dq @ ''];'',
              ''}''])"
proof (intro conjI)
  show "fst (sdd_to_dot node litnamemap show_id merge_leafs g)
     = fst (sdd_to_dot node litnamemap show_id merge_leafs g')"
    by (simp add: sdd_to_dot_def)
  show "sdd_to_dot node litnamemap show_id merge_leafs
        (snd (sdd_to_dot node litnamemap show_id merge_leafs g))
     = sdd_to_dot node litnamemap show_id merge_leafs g"
    by (simp add: sdd_to_dot_def)
  show "sdd_to_dot (Some n) litnamemap show_id merge_leafs g
     = (let r = sddnode_to_dot_int n (case litnamemap of None \<Rightarrow> Map.empty | Some d \<Rightarrow> d)
                  show_id merge_leafs \<lparr>visited = {}, node_count = 0\<rparr>
        in (Inr (join_lines ([''digraph sdd {''] @ snd (fst r) @ [''}''])), node_count (snd r)))"
    by (simp add: sdd_to_dot_def Let_def case_prod_beta)
  show "fst (sdd_to_dot (Some (SddTrue i vt)) None False False g)
     = Inr (join_lines [''digraph sdd {'',
              ''n0_'' @ str_int i @ '' [shape=rectangle,label='' @ dq @ glyph_true @ dq @ ''];'',
              ''}''])"
    by (simp add: sdd_to_dot_def leaf_to_dot_def Let_def extra_options_def get_str_def digit_char_def)
qed

text \<open>Scenario 4: a decision node over two leaves, leaves not merged, default labels; the
  second call runs with the counter value the first call left (2) and gives the same
  text.\<close>

theorem sdd_to_dot_repeatable_witness:
  "snd (sdd_to_dot (Some (SddDecision 2 (Some 1) [(SddLiteral 0 (Some 0) 1, SddTrue 1 None)]))
          None False False 0) = 2
   \<and> fst (sdd_to_dot (Some (SddDecision 2 (Some 1) [(SddLiteral 0 (Some 0) 1, SddTrue 1 None)]))
          None False False 2)
     = fst (sdd_to_dot (Some (SddDecision 2 (Some 1) [(SddLiteral 0 (Some 0) 1, SddTrue 1 None)]))
          None False False 0)"
proof -
  let ?n = "Some (SddDecision 2 (Some 1) [(SddLiteral 0 (Some 0) 1, SddTrue 1 None)])"
  have "snd (sdd_to_dot ?n None False False 0) = 2" by code_simp
  moreover have "fst (sdd_to_dot ?n None False False 2) = fst (sdd_to_dot ?n None False False 0)"
    using sdd_to_dot_repeatable [of ?n None False False 2 0, THEN conjunct1] .
  ultimately show ?thesis by simp
qed

text \<open>
  Claim C10.  \<open>sdd_to_dot\<close> called with \<open>None\<close> as root raises ValueError and produces no
  text; a call produces text exactly when the root is not \<open>None\<close>.
\<close>

theorem sdd_to_dot_no_root:
  "fst (sdd_to_dot None litnamemap show_id merge_leafs g) = Inl (ValueError ''No root node given'')
   \<and> ((\<exists>text. fst (sdd_to_dot node litnamemap show_id merge_leafs g) = Inr text) \<longleftrightarrow> node \<noteq> None)"
  by (cases node) (simp_all add: sdd_to_dot_def Let_def case_prod_beta)

theorem sdd_to_dot_no_root_witness:
  "fst (sdd_to_dot None (Some [KStr ''add'' \<mapsto> ''or'']) True False 5)
     = Inl (ValueError ''No root node given'')"
  using sdd_to_dot_no_root [of "Some [KStr ''add'' \<mapsto> ''or'']" True False 5 None,
      THEN conjunct1] .

section \<open>Decimal text of integers\<close>

declare str_nat.simps [simp del]


















section \<open>The traversal of the renderer\<close>











section \<open>Which statements belong to which node\<close>














section \<open>Counting the statements of a node\<close>






section \<open>Every decision node is visited\<close>



lemma decision_ids_decision:
  "decision_ids (SddDecision j vt es) = insert j (node_id ` {d \<in> subnodes_elements es. is_decision d})"
proof -
  have "{d \<in> subnodes (SddDecision j vt es). is_decision d}
          = insert (SddDecision j vt es) {d \<in> subnodes_elements es. is_decision d}"
    by auto
  then show ?thesis by (simp add: decision_ids_def)
qed


lemma decision_ids_sub: "d \<in> subnodes_elements es \<Longrightarrow> is_decision d \<Longrightarrow>
   node_id d \<in> node_id ` {d \<in> subnodes_elements es. is_decision d}"
  by blast





lemma subnodes_decision_ids:
  "d \<in> subnodes n \<Longrightarrow> decision_ids d \<subseteq> decision_ids n"
  "d \<in> subnodes_elements es \<Longrightarrow> decision_ids d \<subseteq> node_id ` {d \<in> subnodes_elements es. is_decision d}"
proof (induction n and es arbitrary: d and d rule: subnodes_subnodes_elements.induct)
  case (4 i vt es)
  then show ?case by (auto simp: decision_ids_decision)
next
  case (6 prime sub rest)
  from 6(4) consider "d \<in> subnodes prime" | "d \<in> subnodes sub" | "d \<in> subnodes_elements rest"
    by auto
  then show ?case
  proof cases
    case 1
    from 6(1) [OF 1] show ?thesis by (auto simp: decision_ids_def)
  next
    case 2
    from 6(2) [OF 2] show ?thesis by (auto simp: decision_ids_def)
  next
    case 3
    from 6(3) [OF 3] show ?thesis by auto
  qed
qed (auto simp: decision_ids_def)






section \<open>The lines of the output\<close>

lemma split_lines_not_Nil: "split_lines s \<noteq> []"
  by (induction s) (auto split: list.splits)
















section \<open>The identifiers the traversal returns\<close>

lemma leaf_ids_leaf: "\<not> is_decision n \<Longrightarrow> leaf_ids n = {node_id n}"
  by (cases n) (auto simp: leaf_ids_def)





section \<open>The statements of a decision node\<close>

















end
